theory Spec2Isabelle
  imports Complex_Main
begin

section \<open>Model Court: data model\<close>

text \<open>
  The development follows the Python package \<^verbatim>\<open>model_court\<close>: the data classes of
  \<^verbatim>\<open>core/models.py\<close>, the helpers of \<^verbatim>\<open>utils/helpers.py\<close> and the classes
  \<^verbatim>\<open>Jury\<close>, \<^verbatim>\<open>Judge\<close>, \<^verbatim>\<open>Prosecutor\<close> and \<^verbatim>\<open>Court\<close> of \<^verbatim>\<open>core/\<close>.

  Conventions of the embedding.
  \<^item> A \<^verbatim>\<open>datetime\<close> is an integer number of microseconds, the resolution of the
    Python type; one time unit is \<open>1\<close>.
  \<^item> A Python \<^verbatim>\<open>float\<close> is a rational number: the quotient \<^verbatim>\<open>a / b\<close> is the exact
    quotient, rounding is not modelled.
  \<^item> An exception is a value of type \<open>exn\<close>; a call that may raise returns
    \<open>exn + 'a\<close> with \<open>Inl\<close> the exception. Only subclasses of \<^verbatim>\<open>Exception\<close> are
    modelled, since these are what the \<^verbatim>\<open>except Exception\<close> clauses of the code catch.
  \<^item> The fields \<^verbatim>\<open>timestamp\<close> and \<^verbatim>\<open>metadata\<close> that the data classes fill from a
    default factory are left out where no operation reads them.
\<close>

type_synonym time = int

datatype exn =
    ValueError string
  | TypeError string
  | AttributeError string
  | ValidationError string
  | RuntimeError string
  | BackendError string

text \<open>\<^verbatim>\<open>str(e)\<close>: the message of an exception.\<close>

fun str_exn :: "exn \<Rightarrow> string" where
  "str_exn (ValueError m) = m"
| "str_exn (TypeError m) = m"
| "str_exn (AttributeError m) = m"
| "str_exn (ValidationError m) = m"
| "str_exn (RuntimeError m) = m"
| "str_exn (BackendError m) = m"

subsection \<open>Precedent and CourtCodeEntry\<close>

record precedent =
  p_precedent_id :: string
  p_claim :: string
  p_verdict :: string
  p_reasoning :: string
  p_similarity_score :: rat
  p_timestamp :: time
  p_valid_from :: "time option"
  p_valid_until :: "time option"

record court_code_entry =
  e_entry_id :: string
  e_claim :: string
  e_verdict :: string
  e_reasoning :: string
  e_domain :: string
  e_case_id :: string
  e_timestamp :: time
  e_valid_from :: "time option"
  e_valid_until :: "time option"
  e_jury_votes_count :: int
  e_objection_count :: int
  e_objection_ratio :: rat

text \<open>
  \<^verbatim>\<open>Precedent.is_valid(check_date=None)\<close>. The first argument is the reading of
  \<^verbatim>\<open>datetime.now()\<close>, used when no check date is passed (a \<^verbatim>\<open>datetime\<close> object is
  always truthy, so \<^verbatim>\<open>check_date or datetime.now()\<close> keeps a given date). A bound that
  is \<^verbatim>\<open>None\<close> is falsy and its test is skipped.
\<close>

definition Precedent_is_valid :: "time \<Rightarrow> precedent \<Rightarrow> time option \<Rightarrow> bool" where
  "Precedent_is_valid now self check_date =
     (let check_date = (case check_date of None \<Rightarrow> now | Some d \<Rightarrow> d) in
      if (case p_valid_from self of None \<Rightarrow> False | Some f \<Rightarrow> check_date < f) then False
      else if (case p_valid_until self of None \<Rightarrow> False | Some u \<Rightarrow> check_date > u) then False
      else True)"

text \<open>\<^verbatim>\<open>CourtCodeEntry.is_valid(check_date=None)\<close>, the same test on a store entry.\<close>

definition CourtCodeEntry_is_valid :: "time \<Rightarrow> court_code_entry \<Rightarrow> time option \<Rightarrow> bool" where
  "CourtCodeEntry_is_valid now self check_date =
     (let check_date = (case check_date of None \<Rightarrow> now | Some d \<Rightarrow> d) in
      if (case e_valid_from self of None \<Rightarrow> False | Some f \<Rightarrow> check_date < f) then False
      else if (case e_valid_until self of None \<Rightarrow> False | Some u \<Rightarrow> check_date > u) then False
      else True)"

section \<open>The verdict rule evaluator\<close>

text \<open>
  A rule set is a Python \<^verbatim>\<open>dict\<close>, iterated in insertion order: an association list
  from verdict name to rule. A rule is either a string (the sentinel \<^verbatim>\<open>"default"\<close>
  is the only one the code expects) or a dictionary read with
  \<^verbatim>\<open>rule.get("operator")\<close> and \<^verbatim>\<open>rule.get("value")\<close>; a missing key reads \<^verbatim>\<open>None\<close>.
  When present, the operator is a string and the value a number.
\<close>

datatype rule =
    RuleStr string
  | RuleDict (rule_operator: "string option") (rule_value: "rat option")

type_synonym rules = "(string \<times> rule) list"

text \<open>
  The \<^verbatim>\<open>if\<close>/\<^verbatim>\<open>elif\<close> chain of \<^verbatim>\<open>calculate_verdict\<close> on one dictionary rule:
  \<open>Inr True\<close> when a branch returns the verdict, \<open>Inr False\<close> when no branch fires.
  \<^verbatim>\<open>objection_ratio == None\<close> is false; an order comparison of a float with
  \<^verbatim>\<open>None\<close> raises \<^verbatim>\<open>TypeError\<close>. An operator outside the five names fires no branch.
\<close>

definition rule_matches :: "rat \<Rightarrow> string option \<Rightarrow> rat option \<Rightarrow> exn + bool" where
  "rule_matches objection_ratio operator val =
     (if operator = Some ''eq'' then Inr (val = Some objection_ratio)
      else if operator = Some ''lt'' then
        (case val of None \<Rightarrow> Inl (TypeError ''unsupported operand for <'')
         | Some x \<Rightarrow> Inr (objection_ratio < x))
      else if operator = Some ''le'' then
        (case val of None \<Rightarrow> Inl (TypeError ''unsupported operand for <='')
         | Some x \<Rightarrow> Inr (objection_ratio \<le> x))
      else if operator = Some ''gt'' then
        (case val of None \<Rightarrow> Inl (TypeError ''unsupported operand for >'')
         | Some x \<Rightarrow> Inr (objection_ratio > x))
      else if operator = Some ''ge'' then
        (case val of None \<Rightarrow> Inl (TypeError ''unsupported operand for >='')
         | Some x \<Rightarrow> Inr (objection_ratio \<ge> x))
      else Inr False)"

text \<open>
  The \<^verbatim>\<open>for\<close> loop of \<^verbatim>\<open>calculate_verdict\<close>, with the local \<^verbatim>\<open>default_verdict\<close> as
  accumulator. After the loop \<^verbatim>\<open>default_verdict or "unknown"\<close> is returned: Python's
  \<^verbatim>\<open>or\<close> yields its right operand when the left one is falsy, which \<^verbatim>\<open>None\<close> and the
  empty string both are.
\<close>

fun calculate_verdict_loop :: "rat \<Rightarrow> rules \<Rightarrow> string option \<Rightarrow> exn + string" where
  "calculate_verdict_loop objection_ratio [] default_verdict =
     (case default_verdict of
        None \<Rightarrow> Inr ''unknown''
      | Some d \<Rightarrow> Inr (if d = [] then ''unknown'' else d))"
| "calculate_verdict_loop objection_ratio ((verdict, rule) # rest) default_verdict =
     (if rule = RuleStr ''default'' then calculate_verdict_loop objection_ratio rest (Some verdict)
      else case rule of
        RuleStr s \<Rightarrow> Inl (AttributeError ''str object has no attribute get'')
      | RuleDict operator val \<Rightarrow>
          (case rule_matches objection_ratio operator val of
             Inl e \<Rightarrow> Inl e
           | Inr True \<Rightarrow> Inr verdict
           | Inr False \<Rightarrow> calculate_verdict_loop objection_ratio rest default_verdict))"

definition calculate_verdict :: "rat \<Rightarrow> rules \<Rightarrow> exn + string" where
  "calculate_verdict objection_ratio rules = calculate_verdict_loop objection_ratio rules None"

text \<open>
  The rule sets of the configuration surface: every rule is the sentinel
  \<^verbatim>\<open>"default"\<close> or a dictionary with an operator and a numeric threshold.
\<close>

fun well_formed_rule :: "rule \<Rightarrow> bool" where
  "well_formed_rule (RuleStr s) = (s = ''default'')"
| "well_formed_rule (RuleDict operator val) = (operator \<noteq> None \<and> val \<noteq> None)"

definition well_formed_rules :: "rules \<Rightarrow> bool" where
  "well_formed_rules rules = list_all (\<lambda>(verdict, rule). well_formed_rule rule) rules"

section \<open>Python values and helpers\<close>

text \<open>
  What \<^verbatim>\<open>json.loads\<close> returns, and so what \<^verbatim>\<open>generate_json\<close> hands to its caller.
  A JSON object is an association list read by its first binding of a key.
\<close>

datatype json =
    JNull
  | JBool bool
  | JNum rat
  | JStr string
  | JList "json list"
  | JDict "(string \<times> json) list"

text \<open>Python truthiness, as \<^verbatim>\<open>if x:\<close> and \<^verbatim>\<open>not x\<close> test it.\<close>

fun truthy :: "json \<Rightarrow> bool" where
  "truthy JNull = False"
| "truthy (JBool b) = b"
| "truthy (JNum x) = (x \<noteq> 0)"
| "truthy (JStr s) = (s \<noteq> [])"
| "truthy (JList xs) = (xs \<noteq> [])"
| "truthy (JDict kvs) = (kvs \<noteq> [])"

text \<open>
  \<^verbatim>\<open>response.get(key, default)\<close>: only a \<^verbatim>\<open>dict\<close> has the method; on any other
  value the attribute lookup raises \<^verbatim>\<open>AttributeError\<close>.
\<close>

definition json_get :: "json \<Rightarrow> string \<Rightarrow> json \<Rightarrow> exn + json" where
  "json_get obj key dflt =
     (case obj of
        JDict kvs \<Rightarrow> Inr (case map_of kvs key of None \<Rightarrow> dflt | Some v \<Rightarrow> v)
      | _ \<Rightarrow> Inl (AttributeError ''object has no attribute get''))"

text \<open>
  The Python runtime and the outside world, as far as the code reads them:
  the clock, the identifiers that \<^verbatim>\<open>generate_id\<close> (a random UUID) hands out for the
  case, for the claims of a case (by position) and for the store entries (by the claim
  they record), the builtin \<^verbatim>\<open>float\<close> on a string, the float format \<^verbatim>\<open>.1%\<close>, and the
  JSON reading of the claim splitter (\<^verbatim>\<open>json.loads\<close>, then the same on the first match
  of the regular expression for a bracketed array; \<open>None\<close> when neither gives a value).
\<close>

record env =
  env_now :: time
  env_case_id :: string
  env_claim_id :: "nat \<Rightarrow> string"
  env_entry_id :: "string \<Rightarrow> string"
  env_float_of_str :: "string \<Rightarrow> rat option"
  env_format_percent :: "rat \<Rightarrow> string"
  env_loads_claims :: "string \<Rightarrow> json option"

text \<open>\<^verbatim>\<open>float(x)\<close> on a value read from JSON.\<close>

definition py_float :: "env \<Rightarrow> json \<Rightarrow> exn + rat" where
  "py_float env v =
     (case v of
        JNum x \<Rightarrow> Inr x
      | JBool b \<Rightarrow> Inr (if b then 1 else 0)
      | JStr s \<Rightarrow>
          (case env_float_of_str env s of
             None \<Rightarrow> Inl (ValueError ''could not convert string to float'')
           | Some x \<Rightarrow> Inr x)
      | _ \<Rightarrow> Inl (TypeError ''float() argument must be a string or a real number''))"

definition nl :: string where
  "nl = [CHR 0x0A]"

text \<open>\<^verbatim>\<open>sep.join(xs)\<close>.\<close>

fun join :: "string \<Rightarrow> string list \<Rightarrow> string" where
  "join sep [] = []"
| "join sep [x] = x"
| "join sep (x # y # ys) = x @ sep @ join sep (y # ys)"

text \<open>\<^verbatim>\<open>str(n)\<close> for an integer: its decimal numeral.\<close>

fun str_nat :: "nat \<Rightarrow> string" where
  "str_nat n =
     (if n < 10 then [char_of (48 + n)]
      else str_nat (n div 10) @ [char_of (48 + n mod 10)])"

definition str_int :: "int \<Rightarrow> string" where
  "str_int i = (if i < 0 then ''-'' @ str_nat (nat (- i)) else str_nat (nat i))"

text \<open>
  \<^verbatim>\<open>s.lower()\<close> and \<^verbatim>\<open>s.strip()\<close> on ASCII text: the letters \<open>A\<close> to \<open>Z\<close> are lowered,
  and the six ASCII whitespace characters are stripped from both ends.
\<close>

definition lower_char :: "char \<Rightarrow> char" where
  "lower_char c =
     (let n = of_char c :: nat in if 65 \<le> n \<and> n \<le> 90 then char_of (n + 32) else c)"

definition lower :: "string \<Rightarrow> string" where
  "lower s = map lower_char s"

definition is_space :: "char \<Rightarrow> bool" where
  "is_space c = (let n = of_char c :: nat in n = 32 \<or> (9 \<le> n \<and> n \<le> 13))"

definition strip :: "string \<Rightarrow> string" where
  "strip s = rev (dropWhile is_space (rev (dropWhile is_space s)))"

section \<open>Claims, votes and results\<close>

datatype claim_source = SrcNew | SrcCache | SrcPrecedent

record claim =
  c_claim_id :: string
  c_text :: string
  c_source :: claim_source
  c_cache_id :: "string option"
  c_cached_verdict :: "string option"
  c_precedents :: "precedent list"

datatype decision = no_objection | suspicious_fact | reasonable_doubt | abstain

record jury_vote =
  v_jury_name :: string
  v_claim_id :: string
  v_decision :: decision
  v_confidence :: rat
  v_reason :: string
  v_reference_summary :: "string option"
  v_search_cycles :: int

text \<open>\<^verbatim>\<open>JuryVote.is_objection\<close>.\<close>

definition is_objection :: "jury_vote \<Rightarrow> bool" where
  "is_objection self = (v_decision self \<in> set [suspicious_fact, reasonable_doubt])"

text \<open>
  The constructor \<^verbatim>\<open>JuryVote(...)\<close> with the validation pydantic performs on the
  arguments the code passes unchecked: \<^verbatim>\<open>decision\<close> must be one of the four literals,
  \<^verbatim>\<open>confidence\<close> must lie in \<open>[0, 1]\<close>, \<^verbatim>\<open>reason\<close> must be a string. A violation raises
  \<^verbatim>\<open>ValidationError\<close>.
\<close>

definition decision_of_json :: "json \<Rightarrow> decision option" where
  "decision_of_json d =
     (if d = JStr ''no_objection'' then Some no_objection
      else if d = JStr ''suspicious_fact'' then Some suspicious_fact
      else if d = JStr ''reasonable_doubt'' then Some reasonable_doubt
      else if d = JStr ''abstain'' then Some abstain
      else None)"

definition JuryVote ::
  "string \<Rightarrow> string \<Rightarrow> json \<Rightarrow> rat \<Rightarrow> json \<Rightarrow> string option \<Rightarrow> int \<Rightarrow> exn + jury_vote" where
  "JuryVote jury_name claim_id decision confidence reason reference_summary search_cycles =
     (case decision_of_json decision of
        None \<Rightarrow> Inl (ValidationError ''validation error for JuryVote: decision'')
      | Some d \<Rightarrow>
          if \<not> (0 \<le> confidence \<and> confidence \<le> 1)
          then Inl (ValidationError ''validation error for JuryVote: confidence'')
          else (case reason of
                  JStr r \<Rightarrow>
                    Inr \<lparr>v_jury_name = jury_name, v_claim_id = claim_id, v_decision = d,
                         v_confidence = confidence, v_reason = r,
                         v_reference_summary = reference_summary,
                         v_search_cycles = search_cycles\<rparr>
                | _ \<Rightarrow> Inl (ValidationError ''validation error for JuryVote: reason'')))"

record claim_result =
  r_claim :: claim
  r_jury_votes :: "jury_vote list"
  r_verdict :: string
  r_judge_reasoning :: string
  r_objection_count :: int
  r_objection_ratio :: rat

text \<open>
  The constructor \<^verbatim>\<open>ClaimResult(...)\<close>: \<^verbatim>\<open>verdict\<close> and \<^verbatim>\<open>judge_reasoning\<close> are
  required strings, so \<^verbatim>\<open>None\<close> for the first or a value that is not a string for the
  second raises \<^verbatim>\<open>ValidationError\<close>.
\<close>

definition ClaimResult ::
  "claim \<Rightarrow> jury_vote list \<Rightarrow> string option \<Rightarrow> json \<Rightarrow> int \<Rightarrow> rat \<Rightarrow> exn + claim_result" where
  "ClaimResult claim jury_votes verdict judge_reasoning objection_count objection_ratio =
     (case verdict of
        None \<Rightarrow> Inl (ValidationError ''validation error for ClaimResult: verdict'')
      | Some v \<Rightarrow>
          (case judge_reasoning of
             JStr reasoning \<Rightarrow>
               Inr \<lparr>r_claim = claim, r_jury_votes = jury_votes, r_verdict = v,
                    r_judge_reasoning = reasoning, r_objection_count = objection_count,
                    r_objection_ratio = objection_ratio\<rparr>
           | _ \<Rightarrow> Inl (ValidationError ''validation error for ClaimResult: judge_reasoning'')))"

datatype status = completed | mistrial | partial

record case_report =
  rep_case_id :: string
  rep_case_text :: string
  rep_domain :: string
  rep_status :: status
  rep_claims :: "claim_result list"
  rep_error_message :: "string option"

record prosecutor_report =
  prep_case_id :: string
  prep_original_text :: string
  prep_claims :: "claim list"
  prep_cache_hits :: int
  prep_precedents_found :: int

section \<open>The bounded concurrency runner\<close>

text \<open>
  A coroutine handed to the runner is modelled by its outcome when awaited: the value
  it returns or the exception it raises.

  \<^verbatim>\<open>asyncio.gather(*aws)\<close> with the default \<^verbatim>\<open>return_exceptions=False\<close>: the results
  in the order of the arguments when every awaitable returns, otherwise the first
  exception raised is propagated to the awaiting caller. Which failing task is first
  depends on completion order; the model reports the failing task that comes first in
  the list, and no property below depends on which one is reported.
\<close>

fun gather :: "(exn + 'a) list \<Rightarrow> exn + 'a list" where
  "gather [] = Inr []"
| "gather (task # tasks) =
     (case task of
        Inl e \<Rightarrow> Inl e
      | Inr x \<Rightarrow> (case gather tasks of Inl e \<Rightarrow> Inl e | Inr xs \<Rightarrow> Inr (x # xs)))"

text \<open>
  \<^verbatim>\<open>run_with_concurrency_limit(tasks, limit)\<close>. \<^verbatim>\<open>asyncio.Semaphore(limit)\<close> raises
  \<^verbatim>\<open>ValueError\<close> for a negative limit. With limit \<open>0\<close> every \<^verbatim>\<open>bounded_task\<close> waits for
  the semaphore and none is ever released, so with at least one task the call never
  returns: the result \<open>None\<close>. Otherwise each task runs under the semaphore and the
  results are gathered.
\<close>

definition run_with_concurrency_limit :: "(exn + 'a) list \<Rightarrow> int \<Rightarrow> (exn + 'a list) option" where
  "run_with_concurrency_limit tasks limit =
     (if limit < 0 then Some (Inl (ValueError ''Semaphore initial value must be >= 0''))
      else if limit = 0 \<and> tasks \<noteq> [] then None
      else Some (gather tasks))"

text \<open>
  The wrapper \<^verbatim>\<open>get_vote\<close> that \<^verbatim>\<open>Court._conduct_jury_trial\<close> puts around each
  \<^verbatim>\<open>jury.vote(claim)\<close> before handing it to the runner: an exception becomes \<^verbatim>\<open>None\<close>.
  Its argument is the outcome of the wrapped call.
\<close>

definition get_vote :: "exn + 'a \<Rightarrow> exn + 'a option" where
  "get_vote outcome = (case outcome of Inr v \<Rightarrow> Inr (Some v) | Inl e \<Rightarrow> Inr None)"

section \<open>The jury\<close>

text \<open>
  The backends are functions of what the code sends them. A prompt is a fixed template
  filled with values, and the wording of the templates is outside the model, so a
  request to the language model is the tuple of values its prompt is filled with:
  \<^item> \<open>VoteRequest\<close>: the final decision request of a jury (claim text, evidence text,
    the jury prompt or its default sentence);
  \<^item> \<open>SufficiencyRequest\<close>: the THINK step of the search loop (the evidence summary);
  \<^item> \<open>ReasoningRequest\<close>: the judge's request for an explanation (claim text, votes,
    the precedents shown, verdict, objection ratio, judge prompt).
  A reply of type \<open>exn + json\<close> is the outcome of \<^verbatim>\<open>generate_json\<close>: it raises on a
  transport error, on a timeout, and with \<^verbatim>\<open>ValueError\<close> when no JSON can be parsed
  from the model's text.
\<close>

datatype request =
    VoteRequest string string string
  | SufficiencyRequest string
  | ReasoningRequest string "jury_vote list" "precedent list" string rat "string option"

type_synonym llm = "request \<Rightarrow> exn + json"

text \<open>
  A reference source is its method \<^verbatim>\<open>retrieve(query, top_k=3)\<close>. The query is a JSON
  value because the search loop may pass on whatever the model returned as
  \<^verbatim>\<open>new_query\<close>.
\<close>

type_synonym reference = "json \<Rightarrow> exn + string list"

record jury =
  j_name :: string
  j_reference :: "reference option"
  j_jury_prompt :: "string option"
  j_search_cycle_mode :: bool
  j_search_cycle_max :: int
  j_llm :: llm

text \<open>
  The body of the \<^verbatim>\<open>try\<close> block that ends both voting methods: the decision request,
  the three reads with their defaults, \<^verbatim>\<open>float(...)\<close> and the construction of the vote.
\<close>

definition request_vote ::
  "env \<Rightarrow> jury \<Rightarrow> claim \<Rightarrow> request \<Rightarrow> string option \<Rightarrow> int \<Rightarrow> exn + jury_vote" where
  "request_vote env self claim user_prompt reference_summary search_cycles =
     (case j_llm self user_prompt of
        Inl e \<Rightarrow> Inl e
      | Inr response \<Rightarrow>
     (case json_get response ''decision'' (JStr ''reasonable_doubt'') of
        Inl e \<Rightarrow> Inl e
      | Inr decision \<Rightarrow>
     (case json_get response ''confidence'' (JNum (1 / 2)) of
        Inl e \<Rightarrow> Inl e
      | Inr c \<Rightarrow>
     (case py_float env c of
        Inl e \<Rightarrow> Inl e
      | Inr confidence \<Rightarrow>
     (case json_get response ''reason'' (JStr ''No reason provided'') of
        Inl e \<Rightarrow> Inl e
      | Inr reason \<Rightarrow>
          JuryVote (j_name self) (c_claim_id claim) decision confidence reason
            reference_summary search_cycles)))))"

text \<open>
  \<^verbatim>\<open>Jury._vote_simple\<close>. First the evidence text: empty without a reference, when
  retrieval raises (the exception is caught and printed) and when nothing is retrieved.
\<close>

definition simple_evidence_text :: "jury \<Rightarrow> claim \<Rightarrow> string" where
  "simple_evidence_text self claim =
     (case j_reference self of
        None \<Rightarrow> []
      | Some retrieve \<Rightarrow>
          (case retrieve (JStr (c_text claim)) of
             Inl e \<Rightarrow> []
           | Inr evidence \<Rightarrow>
               if evidence \<noteq> []
               then nl @ nl @ ''Available Evidence:'' @ nl @ join (nl @ ''---'' @ nl) evidence
               else []))"

definition simple_user_prompt :: "jury \<Rightarrow> claim \<Rightarrow> request" where
  "simple_user_prompt self claim =
     VoteRequest (c_text claim) (simple_evidence_text self claim)
       (case j_jury_prompt self of
          None \<Rightarrow> ''Please evaluate this claim carefully.''
        | Some p \<Rightarrow> if p = [] then ''Please evaluate this claim carefully.'' else p)"

definition vote_simple :: "env \<Rightarrow> jury \<Rightarrow> claim \<Rightarrow> exn + jury_vote" where
  "vote_simple env self claim =
     (let evidence_text = simple_evidence_text self claim in
      case request_vote env self claim (simple_user_prompt self claim)
             (if evidence_text \<noteq> [] then Some (take 200 evidence_text) else None) 1 of
        Inr vote \<Rightarrow> Inr vote
      | Inl e \<Rightarrow>
          JuryVote (j_name self) (c_claim_id claim) (JStr ''abstain'') 0
            (JStr (''Error during evaluation: '' @ str_exn e)) None 1)"

text \<open>
  The THINK step reads the sufficiency reply: a dictionary gives its entry
  \<^verbatim>\<open>"sufficient"\<close> (\<^verbatim>\<open>False\<close> when missing), where a string counts as true when its
  lower-case form is one of three words; a bare string is read the same way; anything
  else is \<^verbatim>\<open>False\<close>. The result is then tested for truthiness.
\<close>

definition affirmative :: "string \<Rightarrow> bool" where
  "affirmative s = (lower s \<in> set [''true'', ''yes'', ''sufficient''])"

definition is_sufficient :: "json \<Rightarrow> bool" where
  "is_sufficient sufficiency_response =
     (case sufficiency_response of
        JDict kvs \<Rightarrow>
          (case map_of kvs ''sufficient'' of
             None \<Rightarrow> False
           | Some (JStr s) \<Rightarrow> affirmative s
           | Some v \<Rightarrow> truthy v)
      | JStr s \<Rightarrow> affirmative s
      | _ \<Rightarrow> False)"

text \<open>
  The EXPAND step: the next query, when the reply is a dictionary whose entry
  \<^verbatim>\<open>"new_query"\<close> is truthy; \<open>None\<close> stands for the two \<^verbatim>\<open>break\<close> statements.
\<close>

definition new_query :: "json \<Rightarrow> json option" where
  "new_query sufficiency_response =
     (case sufficiency_response of
        JDict kvs \<Rightarrow>
          (case map_of kvs ''new_query'' of
             None \<Rightarrow> None
           | Some q \<Rightarrow> if truthy q then Some q else None)
      | _ \<Rightarrow> None)"

text \<open>
  The \<^verbatim>\<open>while\<close> loop of \<^verbatim>\<open>Jury._vote_with_steel\<close>, on the locals
  \<^verbatim>\<open>collected_evidence\<close>, \<^verbatim>\<open>search_cycle\<close> and \<^verbatim>\<open>query\<close>; it returns the first two when
  the loop is left. A failed retrieval and a failed sufficiency request both leave the
  loop.
\<close>

function steel_loop ::
  "jury \<Rightarrow> reference \<Rightarrow> string list \<Rightarrow> int \<Rightarrow> json \<Rightarrow> string list \<times> int" where
  "steel_loop self retrieve collected_evidence search_cycle query =
     (if search_cycle < j_search_cycle_max self then
        (case retrieve query of
           Inl e \<Rightarrow> (collected_evidence, search_cycle + 1)
         | Inr evidence \<Rightarrow>
             (case j_llm self
                     (SufficiencyRequest (join (nl @ ''---'' @ nl) (collected_evidence @ evidence))) of
                Inl e \<Rightarrow> (collected_evidence @ evidence, search_cycle + 1)
              | Inr sufficiency_response \<Rightarrow>
                  if is_sufficient sufficiency_response
                  then (collected_evidence @ evidence, search_cycle + 1)
                  else (case new_query sufficiency_response of
                          None \<Rightarrow> (collected_evidence @ evidence, search_cycle + 1)
                        | Some q \<Rightarrow>
                            steel_loop self retrieve (collected_evidence @ evidence)
                              (search_cycle + 1) q)))
      else (collected_evidence, search_cycle))"
  by pat_completeness auto
termination
  by (relation "measure (\<lambda>(self, retrieve, collected_evidence, search_cycle, query).
        nat (j_search_cycle_max self - search_cycle))") auto

declare steel_loop.simps [simp del]

text \<open>
  \<^verbatim>\<open>Jury._vote_with_steel\<close>: the loop, then one final decision request on all the
  evidence collected, however the loop ended. The reference is the one \<^verbatim>\<open>Jury.vote\<close>
  found configured.
\<close>

definition steel_user_prompt :: "jury \<Rightarrow> reference \<Rightarrow> claim \<Rightarrow> request" where
  "steel_user_prompt self retrieve claim =
     (case steel_loop self retrieve [] 0 (JStr (c_text claim)) of
        (collected_evidence, search_cycle) \<Rightarrow>
          VoteRequest (c_text claim)
            (nl @ nl @ ''Collected Evidence (from '' @ str_int search_cycle @ '' search cycles):''
               @ nl @ join (nl @ ''---'' @ nl) collected_evidence)
            (case j_jury_prompt self of
               None \<Rightarrow> ''Please evaluate this claim based on the collected evidence.''
             | Some p \<Rightarrow>
                 if p = [] then ''Please evaluate this claim based on the collected evidence.''
                 else p))"

definition vote_with_steel :: "env \<Rightarrow> jury \<Rightarrow> reference \<Rightarrow> claim \<Rightarrow> exn + jury_vote" where
  "vote_with_steel env self retrieve claim =
     (case steel_loop self retrieve [] 0 (JStr (c_text claim)) of
        (collected_evidence, search_cycle) \<Rightarrow>
          (case request_vote env self claim (steel_user_prompt self retrieve claim)
                  (Some (''Evidence from '' @ str_int search_cycle @ '' search cycles''))
                  search_cycle of
             Inr vote \<Rightarrow> Inr vote
           | Inl e \<Rightarrow>
               JuryVote (j_name self) (c_claim_id claim) (JStr ''abstain'') 0
                 (JStr (''Error during STEEL evaluation: '' @ str_exn e)) None search_cycle))"

text \<open>\<^verbatim>\<open>Jury.vote\<close>: the search loop only with the mode switched on and a reference.\<close>

definition Jury_vote :: "env \<Rightarrow> jury \<Rightarrow> claim \<Rightarrow> exn + jury_vote" where
  "Jury_vote env self claim =
     (case j_reference self of
        Some retrieve \<Rightarrow>
          if j_search_cycle_mode self then vote_with_steel env self retrieve claim
          else vote_simple env self claim
      | None \<Rightarrow> vote_simple env self claim)"

section \<open>The judge\<close>

record judge =
  jd_llm :: llm
  jd_judge_prompt :: "string option"
  jd_verdict_rules :: rules

definition default_verdict_rules :: rules where
  "default_verdict_rules =
     [(''supported'', RuleDict (Some ''eq'') (Some 0)),
      (''suspicious'', RuleDict (Some ''lt'') (Some (1 / 2))),
      (''refuted'', RuleStr ''default'')]"

text \<open>
  \<^verbatim>\<open>Judge.__init__\<close>. The first argument is the outcome of
  \<^verbatim>\<open>create_llm_provider(model)\<close>, which raises for a configuration it cannot build a
  provider from. The rules are stored as given, or the default rules when they are
  \<^verbatim>\<open>None\<close> or empty (\<^verbatim>\<open>verdict_rules or {...}\<close>); nothing reads their content here.
\<close>

definition Judge_init :: "exn + llm \<Rightarrow> rules option \<Rightarrow> string option \<Rightarrow> exn + judge" where
  "Judge_init provider verdict_rules judge_prompt =
     (case provider of
        Inl e \<Rightarrow> Inl e
      | Inr llm \<Rightarrow>
          Inr \<lparr>jd_llm = llm, jd_judge_prompt = judge_prompt,
               jd_verdict_rules =
                 (case verdict_rules of
                    None \<Rightarrow> default_verdict_rules
                  | Some rs \<Rightarrow> if rs = [] then default_verdict_rules else rs)\<rparr>)"

text \<open>
  \<^verbatim>\<open>Judge._generate_fallback_reasoning\<close>, the templated sentence. \<^verbatim>\<open>int(x)\<close> truncates;
  on the non-negative product it is the floor.
\<close>

definition generate_fallback_reasoning :: "env \<Rightarrow> int \<Rightarrow> rat \<Rightarrow> string \<Rightarrow> string" where
  "generate_fallback_reasoning env total_votes objection_ratio verdict =
     (let objection_count = \<lfloor>of_int total_votes * objection_ratio\<rfloor> in
      if verdict = ''supported'' then
        ''Based on unanimous agreement from '' @ str_int total_votes @
        '' jury members with no objections raised, this claim is SUPPORTED.''
      else if verdict = ''suspicious'' then
        ''Based on '' @ str_int objection_count @ '' objection(s) out of '' @
        str_int total_votes @ '' jury members ('' @ env_format_percent env objection_ratio @
        ''), this claim is considered SUSPICIOUS and requires further investigation.''
      else
        ''Based on '' @ str_int objection_count @ '' objection(s) out of '' @
        str_int total_votes @ '' jury members ('' @ env_format_percent env objection_ratio @
        ''), this claim is REFUTED.'')"

text \<open>
  \<^verbatim>\<open>Judge._generate_reasoning\<close>: the model's \<^verbatim>\<open>"reasoning"\<close> entry, whatever its type,
  unless it is falsy or the request (or the read of a reply that is no dictionary)
  raises; then the fallback sentence. At most three precedents are shown to the model.
\<close>

definition generate_reasoning ::
  "env \<Rightarrow> judge \<Rightarrow> claim \<Rightarrow> jury_vote list \<Rightarrow> precedent list option \<Rightarrow> string \<Rightarrow> rat \<Rightarrow> json" where
  "generate_reasoning env self claim jury_votes precedents verdict objection_ratio =
     (let fallback =
            JStr (generate_fallback_reasoning env (int (length jury_votes)) objection_ratio verdict)
      in case jd_llm self
                (ReasoningRequest (c_text claim) jury_votes
                   (case precedents of None \<Rightarrow> [] | Some ps \<Rightarrow> take 3 ps)
                   verdict objection_ratio (jd_judge_prompt self)) of
           Inl e \<Rightarrow> fallback
         | Inr response \<Rightarrow>
             (case json_get response ''reasoning'' (JStr []) of
                Inl e \<Rightarrow> fallback
              | Inr reasoning \<Rightarrow> if \<not> truthy reasoning then fallback else reasoning))"

text \<open>
  \<^verbatim>\<open>Judge.verdict\<close>. An exception of \<^verbatim>\<open>calculate_verdict\<close> and a validation error of
  the result's constructor are not caught here.
\<close>

definition Judge_verdict ::
  "env \<Rightarrow> judge \<Rightarrow> claim \<Rightarrow> jury_vote list \<Rightarrow> precedent list option \<Rightarrow> exn + claim_result" where
  "Judge_verdict env self claim jury_votes precedents =
     (let objection_count = int (length (filter is_objection jury_votes));
          objection_ratio =
            (if jury_votes \<noteq> [] then of_int objection_count / of_nat (length jury_votes) else 0)
      in case calculate_verdict objection_ratio (jd_verdict_rules self) of
           Inl e \<Rightarrow> Inl e
         | Inr verdict_decision \<Rightarrow>
             ClaimResult claim jury_votes (Some verdict_decision)
               (generate_reasoning env self claim jury_votes precedents verdict_decision
                  objection_ratio)
               objection_count objection_ratio)"

section \<open>The prosecutor\<close>

text \<open>
  The precedent store is the interface \<^verbatim>\<open>BaseCourtCode\<close>: the exact-match lookup, the
  similarity lookup (called with \<^verbatim>\<open>top_k=5\<close> and \<^verbatim>\<open>threshold=0.7\<close>) and the insertion,
  each with the outcome of the call. All lookups of a trial happen before its first
  insertion, so the lookups are functions of the claim text.
\<close>

record court_code =
  cc_search_exact :: "string \<Rightarrow> exn + court_code_entry option"
  cc_search_similar :: "string \<Rightarrow> exn + precedent list"
  cc_add_entry :: "court_code_entry \<Rightarrow> exn + string"

text \<open>
  The language model of the prosecutor is its method \<^verbatim>\<open>generate\<close>, a function of the
  prosecutor prompt and the case text that fill the prompt; \<open>None\<close> when claim
  splitting is off and no model was created.
\<close>

record prosecutor =
  pr_court_code :: court_code
  pr_auto_claim_splitting :: bool
  pr_llm :: "(string option \<Rightarrow> string \<Rightarrow> exn + string) option"
  pr_prosecutor_prompt :: "string option"

text \<open>
  \<^verbatim>\<open>Prosecutor._split_into_claims\<close>. Every failure falls back to the whole case as one
  claim: no model, a failed request, text that holds no JSON, and JSON that is not a
  list of strings. Otherwise the stripped strings, the empty ones dropped.
\<close>

fun json_str :: "json \<Rightarrow> string option" where
  "json_str (JStr s) = Some s"
| "json_str _ = None"

definition split_into_claims :: "env \<Rightarrow> prosecutor \<Rightarrow> string \<Rightarrow> string list" where
  "split_into_claims env self case_text =
     (case pr_llm self of
        None \<Rightarrow> [case_text]
      | Some generate \<Rightarrow>
          (case generate (pr_prosecutor_prompt self) case_text of
             Inl e \<Rightarrow> [case_text]
           | Inr response \<Rightarrow>
               (case env_loads_claims env response of
                  None \<Rightarrow> [case_text]
                | Some (JList claims) \<Rightarrow>
                    if list_all (\<lambda>c. json_str c \<noteq> None) claims
                    then filter (\<lambda>c. c \<noteq> []) (map (\<lambda>c. strip (the (json_str c))) claims)
                    else [case_text]
                | Some _ \<Rightarrow> [case_text])))"

text \<open>
  The loop of \<^verbatim>\<open>Prosecutor.process\<close> over the claim texts, with the locals \<^verbatim>\<open>claims\<close>,
  \<^verbatim>\<open>cache_hits\<close> and \<^verbatim>\<open>precedents_found\<close>. The two store lookups are not guarded: an
  exception of either leaves the method. \<^verbatim>\<open>is_valid()\<close> is called without a date and
  reads the clock.
\<close>

fun process_loop ::
  "env \<Rightarrow> prosecutor \<Rightarrow> string list \<Rightarrow> claim list \<Rightarrow> int \<Rightarrow> int \<Rightarrow> exn + claim list \<times> int \<times> int" where
  "process_loop env self [] claims cache_hits precedents_found =
     Inr (claims, cache_hits, precedents_found)"
| "process_loop env self (claim_text # rest) claims cache_hits precedents_found =
     (case cc_search_exact (pr_court_code self) claim_text of
        Inl e \<Rightarrow> Inl e
      | Inr exact_match \<Rightarrow>
          (case (case exact_match of
                   None \<Rightarrow> None
                 | Some m \<Rightarrow> if CourtCodeEntry_is_valid (env_now env) m None then Some m else None) of
             Some m \<Rightarrow>
               process_loop env self rest
                 (claims @ [\<lparr>c_claim_id = env_claim_id env (length claims), c_text = claim_text,
                              c_source = SrcCache, c_cache_id = Some (e_entry_id m),
                              c_cached_verdict = Some (e_verdict m), c_precedents = []\<rparr>])
                 (cache_hits + 1) precedents_found
           | None \<Rightarrow>
               (case cc_search_similar (pr_court_code self) claim_text of
                  Inl e \<Rightarrow> Inl e
                | Inr similar_precedents \<Rightarrow>
                    (let valid_precedents =
                           filter (\<lambda>p. Precedent_is_valid (env_now env) p None) similar_precedents
                     in if valid_precedents \<noteq> [] then
                          process_loop env self rest
                            (claims @ [\<lparr>c_claim_id = env_claim_id env (length claims),
                                         c_text = claim_text, c_source = SrcPrecedent,
                                         c_cache_id = None, c_cached_verdict = None,
                                         c_precedents = valid_precedents\<rparr>])
                            cache_hits (precedents_found + int (length valid_precedents))
                        else
                          process_loop env self rest
                            (claims @ [\<lparr>c_claim_id = env_claim_id env (length claims),
                                         c_text = claim_text, c_source = SrcNew,
                                         c_cache_id = None, c_cached_verdict = None,
                                         c_precedents = []\<rparr>])
                            cache_hits precedents_found))))"

text \<open>\<^verbatim>\<open>Prosecutor.process\<close>.\<close>

definition Prosecutor_process :: "env \<Rightarrow> prosecutor \<Rightarrow> string \<Rightarrow> exn + prosecutor_report" where
  "Prosecutor_process env self case_text =
     (let claim_texts =
            (if pr_auto_claim_splitting self then split_into_claims env self case_text
             else [case_text])
      in case process_loop env self claim_texts [] 0 0 of
           Inl e \<Rightarrow> Inl e
         | Inr (claims, cache_hits, precedents_found) \<Rightarrow>
             Inr \<lparr>prep_case_id = [], prep_original_text = case_text, prep_claims = claims,
                  prep_cache_hits = cache_hits, prep_precedents_found = precedents_found\<rparr>)"

section \<open>The court\<close>

record court =
  ct_prosecutor :: prosecutor
  ct_juries :: "jury list"
  ct_judge :: judge
  ct_verdict_rules :: "rules option"
  ct_quorum :: int
  ct_concurrency_limit :: int

text \<open>
  \<^verbatim>\<open>Court.__init__\<close>: the only check is the number of juries against the quorum.
\<close>

definition Court_init ::
  "prosecutor \<Rightarrow> jury list \<Rightarrow> judge \<Rightarrow> rules option \<Rightarrow> int \<Rightarrow> int \<Rightarrow> exn + court" where
  "Court_init prosecutor juries judge verdict_rules quorum concurrency_limit =
     (if int (length juries) < quorum then
        Inl (ValueError (''Number of juries ('' @ str_int (int (length juries)) @
               '') must be >= quorum ('' @ str_int quorum @ '')''))
      else
        Inr \<lparr>ct_prosecutor = prosecutor, ct_juries = juries, ct_judge = judge,
             ct_verdict_rules = verdict_rules, ct_quorum = quorum,
             ct_concurrency_limit = concurrency_limit\<rparr>)"

text \<open>
  What a trial does to the outside is recorded as a list of events: a jury asked to
  vote on a claim, the judge asked for a verdict on a claim, an entry handed to the
  store. The votes of one claim run concurrently; their events are listed in the order
  of the jury list.
\<close>

datatype event =
    JuryVoted string string
  | JudgeCalled string
  | EntryAdded court_code_entry

text \<open>
  The votes that \<^verbatim>\<open>Court._conduct_jury_trial\<close> collects for a claim: every jury's
  \<^verbatim>\<open>vote\<close> under \<^verbatim>\<open>get_vote\<close>, run with the concurrency limit of the court.
\<close>

definition collect_votes :: "env \<Rightarrow> court \<Rightarrow> claim \<Rightarrow> (exn + jury_vote option list) option" where
  "collect_votes env self claim =
     run_with_concurrency_limit
       (map (\<lambda>jury. get_vote (Jury_vote env jury claim)) (ct_juries self))
       (ct_concurrency_limit self)"

text \<open>The filter of \<^verbatim>\<open>_conduct_jury_trial\<close>: failed votes and abstentions are dropped.\<close>

definition successful_votes :: "jury_vote option list \<Rightarrow> jury_vote list" where
  "successful_votes votes =
     map the (filter (\<lambda>v. v \<noteq> None \<and> v_decision (the v) \<noteq> abstain) votes)"

text \<open>
  \<^verbatim>\<open>Court._conduct_jury_trial\<close>: \<open>Inr None\<close> when the quorum is not met, and the events
  of the call. No jury runs when the semaphore cannot be created.
\<close>

definition conduct_jury_trial ::
  "env \<Rightarrow> court \<Rightarrow> claim \<Rightarrow> ((exn + claim_result option) \<times> event list) option" where
  "conduct_jury_trial env self claim =
     (case collect_votes env self claim of
        None \<Rightarrow> None
      | Some (Inl e) \<Rightarrow>
          Some (Inl e,
            if ct_concurrency_limit self < 0 then []
            else map (\<lambda>jury. JuryVoted (j_name jury) (c_claim_id claim)) (ct_juries self))
      | Some (Inr votes) \<Rightarrow>
          (let voted = map (\<lambda>jury. JuryVoted (j_name jury) (c_claim_id claim)) (ct_juries self)
           in if int (length (successful_votes votes)) < ct_quorum self then Some (Inr None, voted)
              else
                (case Judge_verdict env (ct_judge self) claim (successful_votes votes)
                        (if c_source claim = SrcPrecedent then Some (c_precedents claim) else None) of
                   Inl e \<Rightarrow> Some (Inl e, voted @ [JudgeCalled (c_claim_id claim)])
                 | Inr result \<Rightarrow> Some (Inr (Some result), voted @ [JudgeCalled (c_claim_id claim)]))))"

text \<open>
  \<^verbatim>\<open>Court._record_verdict\<close>: the entry is built and handed to the store; an exception of
  the store is caught and printed. The result is the event of the call.
\<close>

definition record_verdict :: "env \<Rightarrow> court \<Rightarrow> claim_result \<Rightarrow> string \<Rightarrow> string \<Rightarrow> event list" where
  "record_verdict env self claim_result case_id domain =
     (let entry =
            \<lparr>e_entry_id = env_entry_id env (c_claim_id (r_claim claim_result)),
             e_claim = c_text (r_claim claim_result), e_verdict = r_verdict claim_result,
             e_reasoning = r_judge_reasoning claim_result, e_domain = domain,
             e_case_id = case_id, e_timestamp = env_now env, e_valid_from = None,
             e_valid_until = None,
             e_jury_votes_count = int (length (r_jury_votes claim_result)),
             e_objection_count = r_objection_count claim_result,
             e_objection_ratio = r_objection_ratio claim_result\<rparr>
      in case cc_add_entry (pr_court_code (ct_prosecutor self)) entry of
           Inl e \<Rightarrow> [EntryAdded entry]
         | Inr entry_id \<Rightarrow> [EntryAdded entry])"

text \<open>
  The locals of \<^verbatim>\<open>Court.hear\<close> that its loop over the claims updates, and the events
  so far.
\<close>

record hear_state =
  hs_claim_results :: "claim_result list"
  hs_mistrial_occurred :: bool
  hs_partial_failure :: bool
  hs_error_message :: "string option"
  hs_events :: "event list"

definition hear_init :: hear_state where
  "hear_init =
     \<lparr>hs_claim_results = [], hs_mistrial_occurred = False, hs_partial_failure = False,
      hs_error_message = None, hs_events = []\<rparr>"

text \<open>
  The result for a claim the prosecutor marked as cached, built by \<^verbatim>\<open>Court.hear\<close>
  without votes.
\<close>

definition cached_result :: "claim \<Rightarrow> exn + claim_result" where
  "cached_result claim =
     ClaimResult claim [] (c_cached_verdict claim)
       (JStr (''This claim was previously decided. Using cached verdict from precedent '' @
              (case c_cache_id claim of None \<Rightarrow> ''None'' | Some i \<Rightarrow> i) @ ''.''))
       0 0"

text \<open>
  The \<^verbatim>\<open>for\<close> loop of \<^verbatim>\<open>Court.hear\<close>. The body runs in a \<^verbatim>\<open>try\<close> whose handler sets
  \<^verbatim>\<open>partial_failure\<close> and goes on with the next claim; a missed quorum sets
  \<^verbatim>\<open>mistrial_occurred\<close> and the message and leaves the loop. The result is \<open>None\<close> when
  a jury trial never returns.
\<close>

fun hear_loop ::
  "env \<Rightarrow> court \<Rightarrow> string \<Rightarrow> string \<Rightarrow> claim list \<Rightarrow> hear_state \<Rightarrow> hear_state option" where
  "hear_loop env self case_id domain [] s = Some s"
| "hear_loop env self case_id domain (claim # rest) s =
     (if c_source claim = SrcCache then
        (case cached_result claim of
           Inl e \<Rightarrow> hear_loop env self case_id domain rest (s\<lparr>hs_partial_failure := True\<rparr>)
         | Inr result \<Rightarrow>
             hear_loop env self case_id domain rest
               (s\<lparr>hs_claim_results := hs_claim_results s @ [result]\<rparr>))
      else
        (case conduct_jury_trial env self claim of
           None \<Rightarrow> None
         | Some (Inl e, events) \<Rightarrow>
             hear_loop env self case_id domain rest
               (s\<lparr>hs_partial_failure := True, hs_events := hs_events s @ events\<rparr>)
         | Some (Inr None, events) \<Rightarrow>
             Some (s\<lparr>hs_mistrial_occurred := True,
                     hs_error_message :=
                       Some (''Failed to meet quorum for claim: '' @ take 50 (c_text claim) @ ''...''),
                     hs_events := hs_events s @ events\<rparr>)
         | Some (Inr (Some claim_result), events) \<Rightarrow>
             hear_loop env self case_id domain rest
               (s\<lparr>hs_claim_results := hs_claim_results s @ [claim_result],
                  hs_events :=
                    hs_events s @ events @ record_verdict env self claim_result case_id domain\<rparr>)))"

text \<open>Step 4 of \<^verbatim>\<open>Court.hear\<close>: the status from the two flags.\<close>

definition report_status :: "bool \<Rightarrow> bool \<Rightarrow> status" where
  "report_status mistrial_occurred partial_failure =
     (if mistrial_occurred then mistrial else if partial_failure then partial else completed)"

text \<open>
  \<^verbatim>\<open>Court.hear\<close>. The call of the prosecutor stands before the loop and outside its
  \<^verbatim>\<open>try\<close>. The result is \<open>None\<close> when the call never returns, \<open>Inl\<close> the exception it
  raises, and otherwise the report together with the events of the trial.
\<close>

definition hear ::
  "env \<Rightarrow> court \<Rightarrow> string \<Rightarrow> string \<Rightarrow> (exn + case_report \<times> event list) option" where
  "hear env self case_text domain =
     (case Prosecutor_process env (ct_prosecutor self) case_text of
        Inl e \<Rightarrow> Some (Inl e)
      | Inr prosecutor_report \<Rightarrow>
          (case hear_loop env self (env_case_id env) domain (prep_claims prosecutor_report)
                  hear_init of
             None \<Rightarrow> None
           | Some s \<Rightarrow>
               Some (Inr (\<lparr>rep_case_id = env_case_id env, rep_case_text = case_text,
                            rep_domain = domain,
                            rep_status =
                              report_status (hs_mistrial_occurred s) (hs_partial_failure s),
                            rep_claims = hs_claim_results s,
                            rep_error_message = hs_error_message s\<rparr>,
                          hs_events s))))"

text \<open>
  The two ways in which the body of the loop of \<^verbatim>\<open>Court.hear\<close> fails on a claim: the
  jury trial returns \<^verbatim>\<open>None\<close> because the quorum is missed, or the body raises (the
  constructor of a cached result, or the jury trial).
\<close>

definition quorum_missed :: "env \<Rightarrow> court \<Rightarrow> claim \<Rightarrow> bool" where
  "quorum_missed env self claim =
     (c_source claim \<noteq> SrcCache \<and>
      (case conduct_jury_trial env self claim of
         Some (Inr None, events) \<Rightarrow> True
       | _ \<Rightarrow> False))"

definition claim_errored :: "env \<Rightarrow> court \<Rightarrow> claim \<Rightarrow> bool" where
  "claim_errored env self claim =
     (if c_source claim = SrcCache then isl (cached_result claim)
      else (case conduct_jury_trial env self claim of
              Some (Inl e, events) \<Rightarrow> True
            | _ \<Rightarrow> False))"

section \<open>An example court\<close>

text \<open>
  A small configuration on which the definitions can be run. The store holds one
  entry, for the claim text \<open>A\<close>, with verdict \<open>supported\<close>, valid until time 100;
  the clock reads 50. Four juries without a reference answer every request with a
  fixed reply: two see no objection, one finds a suspicious fact, and the model of the
  fourth times out. The judge's model times out as well, so the reasoning is the
  fallback sentence. The prosecutor's model echoes the case text, and the text is read
  as one claim per letter: the case text \<open>AB\<close> gives the claims \<open>A\<close> and \<open>B\<close>.
\<close>

definition ex_loads_claims :: "string \<Rightarrow> json option" where
  "ex_loads_claims response = Some (JList (map (\<lambda>c. JStr [c]) response))"

definition ex_claim_id :: "nat \<Rightarrow> string" where
  "ex_claim_id n = ''claim-'' @ str_nat n"

definition ex_entry_id :: "string \<Rightarrow> string" where
  "ex_entry_id claim_id = ''entry-'' @ claim_id"

definition ex_float_of_str :: "string \<Rightarrow> rat option" where
  "ex_float_of_str s = None"

definition ex_format_percent :: "rat \<Rightarrow> string" where
  "ex_format_percent r = ''33.3%''"

definition ex_env :: env where
  "ex_env =
     \<lparr>env_now = 50, env_case_id = ''case-1'', env_claim_id = ex_claim_id,
      env_entry_id = ex_entry_id, env_float_of_str = ex_float_of_str,
      env_format_percent = ex_format_percent, env_loads_claims = ex_loads_claims\<rparr>"

definition ex_entry :: court_code_entry where
  "ex_entry =
     \<lparr>e_entry_id = ''entry-0'', e_claim = ''A'', e_verdict = ''supported'',
      e_reasoning = ''All juries agreed.'', e_domain = ''general'', e_case_id = ''case-0'',
      e_timestamp = 0, e_valid_from = Some 0, e_valid_until = Some 100,
      e_jury_votes_count = 3, e_objection_count = 0, e_objection_ratio = 0\<rparr>"

definition ex_search_exact :: "string \<Rightarrow> exn + court_code_entry option" where
  "ex_search_exact claim_text = Inr (if claim_text = ''A'' then Some ex_entry else None)"

definition ex_search_similar :: "string \<Rightarrow> exn + precedent list" where
  "ex_search_similar claim_text = Inr []"

definition ex_add_entry :: "court_code_entry \<Rightarrow> exn + string" where
  "ex_add_entry entry = Inr (e_entry_id entry)"

definition ex_store :: court_code where
  "ex_store =
     \<lparr>cc_search_exact = ex_search_exact, cc_search_similar = ex_search_similar,
      cc_add_entry = ex_add_entry\<rparr>"

text \<open>A store whose exact-match lookup fails, as a locked database does.\<close>

definition ex_locked_search_exact :: "string \<Rightarrow> exn + court_code_entry option" where
  "ex_locked_search_exact claim_text = Inl (BackendError ''database is locked'')"

definition ex_locked_store :: court_code where
  "ex_locked_store = ex_store\<lparr>cc_search_exact := ex_locked_search_exact\<rparr>"

definition ex_generate :: "string option \<Rightarrow> string \<Rightarrow> exn + string" where
  "ex_generate prosecutor_prompt case_text = Inr case_text"

definition ex_prosecutor :: prosecutor where
  "ex_prosecutor =
     \<lparr>pr_court_code = ex_store, pr_auto_claim_splitting = True, pr_llm = Some ex_generate,
      pr_prosecutor_prompt = None\<rparr>"

definition ex_reply :: "string \<Rightarrow> exn + json" where
  "ex_reply decision =
     Inr (JDict [(''decision'', JStr decision), (''confidence'', JNum 1),
                 (''reason'', JStr ''checked'')])"

definition ex_timeout :: "exn + json" where
  "ex_timeout = Inl (BackendError ''timeout'')"

definition ex_llm :: "exn + json \<Rightarrow> llm" where
  "ex_llm reply request = reply"

definition ex_jury :: "string \<Rightarrow> exn + json \<Rightarrow> jury" where
  "ex_jury name reply =
     \<lparr>j_name = name, j_reference = None, j_jury_prompt = None, j_search_cycle_mode = False,
      j_search_cycle_max = 3, j_llm = ex_llm reply\<rparr>"

definition ex_juries :: "jury list" where
  "ex_juries =
     [ex_jury ''j1'' (ex_reply ''no_objection''), ex_jury ''j2'' (ex_reply ''no_objection''),
      ex_jury ''j3'' (ex_reply ''suspicious_fact''), ex_jury ''j4'' ex_timeout]"



definition ex_judge :: judge where
  "ex_judge =
     \<lparr>jd_llm = ex_llm ex_timeout, jd_judge_prompt = None,
      jd_verdict_rules = default_verdict_rules\<rparr>"

definition ex_court :: court where
  "ex_court =
     \<lparr>ct_prosecutor = ex_prosecutor, ct_juries = ex_juries, ct_judge = ex_judge,
      ct_verdict_rules = None, ct_quorum = 3, ct_concurrency_limit = 5\<rparr>"

text \<open>The same court with a quorum of four, and the same court on the locked store.\<close>

definition ex_strict_court :: court where
  "ex_strict_court = ex_court\<lparr>ct_quorum := 4\<rparr>"

definition ex_locked_court :: court where
  "ex_locked_court =
     ex_court\<lparr>ct_prosecutor := ex_prosecutor\<lparr>pr_court_code := ex_locked_store\<rparr>\<rparr>"

text \<open>
  The claims the prosecutor makes in this configuration, by position in the case: of
  the text \<open>A\<close>, found in the store, and of a text that is not.
\<close>

definition ex_claim_A :: "nat \<Rightarrow> claim" where
  "ex_claim_A n =
     \<lparr>c_claim_id = ex_claim_id n, c_text = ''A'', c_source = SrcCache,
      c_cache_id = Some ''entry-0'', c_cached_verdict = Some ''supported'', c_precedents = []\<rparr>"

definition ex_new_claim :: "string \<Rightarrow> nat \<Rightarrow> claim" where
  "ex_new_claim claim_text n =
     \<lparr>c_claim_id = ex_claim_id n, c_text = claim_text, c_source = SrcNew, c_cache_id = None,
      c_cached_verdict = None, c_precedents = []\<rparr>"

text \<open>
  A rule set with an operator that is none of the five, and a court that errs on one
  claim and misses the quorum on another: its three juries abstain on the claim \<open>B\<close>
  (their model times out on it) and see no objection otherwise, and its judge's model
  returns a number where the reasoning text is expected.
\<close>

definition ex_unknown_operator_rules :: rules where
  "ex_unknown_operator_rules =
     [(''likely'', RuleDict (Some ''approx'') (Some (1 / 2))), (''refuted'', RuleStr ''default'')]"

definition ex_moody_llm :: llm where
  "ex_moody_llm request =
     (case request of
        VoteRequest claim_text evidence_text prompt \<Rightarrow>
          if claim_text = ''B'' then ex_timeout else ex_reply ''no_objection''
      | _ \<Rightarrow> ex_timeout)"

definition ex_moody_jury :: "string \<Rightarrow> jury" where
  "ex_moody_jury name = (ex_jury name ex_timeout)\<lparr>j_llm := ex_moody_llm\<rparr>"

definition ex_number_judge :: judge where
  "ex_number_judge = ex_judge\<lparr>jd_llm := ex_llm (Inr (JDict [(''reasoning'', JNum 5)]))\<rparr>"

definition ex_moody_court :: court where
  "ex_moody_court =
     ex_court\<lparr>ct_juries := [ex_moody_jury ''m1'', ex_moody_jury ''m2'', ex_moody_jury ''m3''],
              ct_judge := ex_number_judge\<rparr>"

text \<open>
  The results, votes and loop states that the example courts produce, named so that
  the runs below can be stated.
\<close>

definition ex_result_A :: "nat \<Rightarrow> claim_result" where
  "ex_result_A n =
     \<lparr>r_claim = ex_claim_A n, r_jury_votes = [], r_verdict = ''supported'',
      r_judge_reasoning =
        ''This claim was previously decided. Using cached verdict from precedent entry-0.'',
      r_objection_count = 0, r_objection_ratio = 0\<rparr>"

definition ex_vote :: "string \<Rightarrow> decision \<Rightarrow> nat \<Rightarrow> jury_vote" where
  "ex_vote name decision n =
     \<lparr>v_jury_name = name, v_claim_id = ex_claim_id n, v_decision = decision, v_confidence = 1,
      v_reason = ''checked'', v_reference_summary = None, v_search_cycles = 1\<rparr>"

definition ex_abstention :: "string \<Rightarrow> nat \<Rightarrow> jury_vote" where
  "ex_abstention name n =
     \<lparr>v_jury_name = name, v_claim_id = ex_claim_id n, v_decision = abstain, v_confidence = 0,
      v_reason = ''Error during evaluation: timeout'', v_reference_summary = None,
      v_search_cycles = 1\<rparr>"

definition ex_votes :: "nat \<Rightarrow> jury_vote option list" where
  "ex_votes n =
     [Some (ex_vote ''j1'' no_objection n), Some (ex_vote ''j2'' no_objection n),
      Some (ex_vote ''j3'' suspicious_fact n), Some (ex_abstention ''j4'' n)]"

definition ex_result_B :: "nat \<Rightarrow> claim_result" where
  "ex_result_B n =
     \<lparr>r_claim = ex_new_claim ''B'' n,
      r_jury_votes =
        [ex_vote ''j1'' no_objection n, ex_vote ''j2'' no_objection n,
         ex_vote ''j3'' suspicious_fact n],
      r_verdict = ''suspicious'',
      r_judge_reasoning = generate_fallback_reasoning ex_env 3 (1 / 3) ''suspicious'',
      r_objection_count = 1, r_objection_ratio = 1 / 3\<rparr>"

definition ex_voted :: "string list \<Rightarrow> nat \<Rightarrow> event list" where
  "ex_voted names n = map (\<lambda>name. JuryVoted name (ex_claim_id n)) names"

definition ex_state_after_A :: hear_state where
  "ex_state_after_A = hear_init\<lparr>hs_claim_results := [ex_result_A 0]\<rparr>"

definition ex_state_after_AC :: hear_state where
  "ex_state_after_AC =
     hear_init\<lparr>hs_claim_results := [ex_result_A 0], hs_partial_failure := True,
               hs_events := ex_voted [''m1'', ''m2'', ''m3''] 1 @ [JudgeCalled (ex_claim_id 1)]\<rparr>"

definition ex_mistrial_report :: "string \<Rightarrow> claim_result list \<Rightarrow> case_report" where
  "ex_mistrial_report case_text results =
     \<lparr>rep_case_id = ''case-1'', rep_case_text = case_text, rep_domain = ''general'',
      rep_status = mistrial, rep_claims = results,
      rep_error_message = Some ''Failed to meet quorum for claim: B...''\<rparr>"

text \<open>
  Two derived notions used to state properties: the last verdict marked as default
  in a prefix of the rules, as the loop of \<^verbatim>\<open>calculate_verdict\<close> tracks it, and whether a
  rule returns its verdict for a ratio.
\<close>

fun last_default :: "rules \<Rightarrow> string option \<Rightarrow> string option" where
  "last_default [] d = d"
| "last_default ((verdict, rule) # rest) d =
     last_default rest (if rule = RuleStr ''default'' then Some verdict else d)"

definition rule_fires :: "rat \<Rightarrow> rule \<Rightarrow> bool" where
  "rule_fires r rule =
     (case rule of
        RuleStr s \<Rightarrow> False
      | RuleDict operator val \<Rightarrow> rule_matches r operator val = Inr True)"

section \<open>Properties\<close>

subsection \<open>Validity windows\<close>


subsection \<open>The verdict rule evaluator\<close>

lemma rule_matches_well_formed:
  "operator \<noteq> None \<Longrightarrow> val \<noteq> None \<Longrightarrow> \<exists>b. rule_matches r operator val = Inr b"
  by (auto simp: rule_matches_def)

text \<open>Rules that are well formed and do not fire are passed over; only the default moves.\<close>

lemma calculate_verdict_loop_skip:
  "list_all (\<lambda>(verdict, rule). well_formed_rule rule \<and> \<not> rule_fires r rule) pre \<Longrightarrow>
   calculate_verdict_loop r (pre @ rest) d = calculate_verdict_loop r rest (last_default pre d)"
proof (induction pre arbitrary: d)
  case Nil
  then show ?case by simp
next
  case (Cons a pre)
  obtain verdict rule where a: "a = (verdict, rule)" by (cases a)
  show ?case
  proof (cases rule)
    case (RuleStr s)
    with Cons a show ?thesis by simp
  next
    case (RuleDict operator val)
    with Cons.prems a have wf: "operator \<noteq> None" "val \<noteq> None"
      and nf: "rule_matches r operator val \<noteq> Inr True"
      by (simp_all add: rule_fires_def)
    from rule_matches_well_formed [OF wf] nf have "rule_matches r operator val = Inr False"
      by (metis (full_types))
    with Cons a RuleDict show ?thesis by simp
  qed
qed

text \<open>The first rule that fires gives the verdict.\<close>

lemma calculate_verdict_first_match:
  assumes "list_all (\<lambda>(verdict, rule). well_formed_rule rule \<and> \<not> rule_fires r rule) pre"
    and "rule_matches r operator val = Inr True"
  shows "calculate_verdict r (pre @ (verdict, RuleDict operator val) # post) = Inr verdict"
  using assms by (simp add: calculate_verdict_def calculate_verdict_loop_skip)

text \<open>
  When no rule fires the result is the last verdict marked as default, unless there is
  none or its name is the empty string; then it is \<open>unknown\<close>.
\<close>

lemma calculate_verdict_no_match:
  assumes "list_all (\<lambda>(verdict, rule). well_formed_rule rule \<and> \<not> rule_fires r rule) rules"
  shows "calculate_verdict r rules =
     Inr (case last_default rules None of
            None \<Rightarrow> ''unknown''
          | Some d \<Rightarrow> if d = [] then ''unknown'' else d)"
  using calculate_verdict_loop_skip [OF assms, of "[]" None]
  by (simp add: calculate_verdict_def split: option.splits)

text \<open>On well-formed rules the evaluator raises nothing.\<close>

lemma calculate_verdict_loop_total:
  "well_formed_rules rules \<Longrightarrow> \<exists>v. calculate_verdict_loop r rules d = Inr v"
proof (induction rules arbitrary: d)
  case Nil
  then show ?case by (simp split: option.splits)
next
  case (Cons a rules)
  obtain verdict rule where a: "a = (verdict, rule)" by (cases a)
  show ?case
  proof (cases rule)
    case (RuleStr s)
    with Cons a show ?thesis by (simp add: well_formed_rules_def)
  next
    case (RuleDict operator val)
    with Cons.prems a have wf: "operator \<noteq> None" "val \<noteq> None"
      by (simp_all add: well_formed_rules_def)
    from rule_matches_well_formed [OF wf] obtain b where "rule_matches r operator val = Inr b"
      by blast
    with Cons a RuleDict show ?thesis by (cases b) (simp_all add: well_formed_rules_def)
  qed
qed

text \<open>
  Outside the well-formed rule sets the evaluator can raise: on an order comparison
  with a missing threshold, and on a rule that is a string other than the sentinel.
\<close>

lemma calculate_verdict_raises_on_missing_value:
  "operator \<in> set [Some ''lt'', Some ''le'', Some ''gt'', Some ''ge''] \<Longrightarrow>
   \<exists>e. calculate_verdict r [(verdict, RuleDict operator None)] = Inl e"
  by (auto simp: calculate_verdict_def rule_matches_def)

lemma calculate_verdict_raises_on_other_string:
  "s \<noteq> ''default'' \<Longrightarrow> \<exists>e. calculate_verdict r [(verdict, RuleStr s)] = Inl e"
  by (simp add: calculate_verdict_def)

text \<open>
  Claim C5. For every objection ratio and every ordered rule set, \<^verbatim>\<open>calculate_verdict\<close>
  returns the first verdict whose test succeeds, the verdict marked as default when no
  rule matches, \<open>unknown\<close> when there is no default, and never raises. The lemmas above
  establish this on well-formed rule sets with one exception, which the code shows on
  the rule set \<^verbatim>\<open>{"supported": {"operator": "eq", "value": 0}, "": "default"}\<close> at
  ratio \<open>1/2\<close>: no rule matches and the verdict marked as default is the one named by
  the empty string, yet the result is \<open>unknown\<close>, because
  \<^verbatim>\<open>default_verdict or "unknown"\<close> treats the empty name like a missing default.
\<close>

theorem calculate_verdict_empty_default_name:
  "calculate_verdict (1 / 2)
     [(''supported'', RuleDict (Some ''eq'') (Some 0)), ('''', RuleStr ''default'')] =
   Inr ''unknown''"
  by (simp add: calculate_verdict_def rule_matches_def)

subsection \<open>The bounded concurrency runner\<close>

lemma gather_map_Inr: "gather (map Inr xs) = Inr xs"
  by (induction xs) simp_all

lemma gather_failing: "\<exists>e'. gather (pre @ Inl e # post) = Inl e'"
proof (induction pre)
  case Nil
  then show ?case by simp
next
  case (Cons t pre)
  then show ?case by (cases t) auto
qed

lemma gather_get_vote:
  "gather (map get_vote outcomes) = Inr (map (case_sum (\<lambda>e. None) Some) outcomes)"
proof (induction outcomes)
  case Nil
  then show ?case by simp
next
  case (Cons out outcomes)
  then show ?case by (cases out) (simp_all add: get_vote_def)
qed

text \<open>
  Claim C2, as amended. For every limit \<open>L \<ge> 1\<close>: when all \<open>N\<close> tasks return, the
  runner returns their \<open>N\<close> results in input order; when a task raises, the runner
  itself does not catch the failure: the exception leaves the runner and no result
  list is returned; the failure is caught one level above, by the wrapper \<^verbatim>\<open>get_vote\<close>
  that the court puts around every vote: on wrapped tasks the runner returns a list of
  length \<open>N\<close> in input order, with \<^verbatim>\<open>None\<close> exactly at the positions of the votes that
  raised.
\<close>

theorem runner_isolates_only_wrapped_tasks:
  assumes "1 \<le> limit"
  shows "run_with_concurrency_limit (map Inr xs) limit = Some (Inr xs)
    \<and> (\<exists>e'. run_with_concurrency_limit (pre @ Inl e # post) limit = Some (Inl e'))
    \<and> run_with_concurrency_limit (map get_vote outcomes) limit =
        Some (Inr (map (case_sum (\<lambda>e. None) Some) outcomes))
    \<and> length (map (case_sum (\<lambda>e. None) Some) outcomes) = length outcomes"
  using assms gather_failing [of pre e post]
  by (simp add: run_with_concurrency_limit_def gather_map_Inr gather_get_vote)

theorem runner_isolates_only_wrapped_tasks_witness:
  "(1::int) \<le> 2
   \<and> run_with_concurrency_limit (map Inr [1::nat, 2, 3]) 2 = Some (Inr [1, 2, 3])
   \<and> (\<exists>e'. run_with_concurrency_limit ([Inr (1::nat)] @ Inl (BackendError ''timeout'') # [Inr 3]) 2
          = Some (Inl e'))
   \<and> run_with_concurrency_limit
        (map get_vote [Inr (1::nat), Inl (BackendError ''timeout''), Inr 3]) 2 =
        Some (Inr [Some 1, None, Some 3])"
  using runner_isolates_only_wrapped_tasks [of 2 "[1::nat, 2, 3]" "[Inr (1::nat)]"
      "BackendError ''timeout''" "[Inr 3]" "[Inr (1::nat), Inl (BackendError ''timeout''), Inr 3]"]
  by simp

text \<open>
  The claim as stated fails: of three tasks under limit 2, the second raises, and the
  runner returns no list but raises that exception.
\<close>

theorem runner_propagates_task_failure:
  "run_with_concurrency_limit [Inr (1::nat), Inl (BackendError ''timeout''), Inr 3] 2 =
     Some (Inl (BackendError ''timeout''))"
  by (simp add: run_with_concurrency_limit_def)

subsection \<open>The jury\<close>

lemma JuryVote_abstain:
  "JuryVote name cid (JStr ''abstain'') 0 (JStr r) rs sc =
     Inr \<lparr>v_jury_name = name, v_claim_id = cid, v_decision = abstain, v_confidence = 0,
          v_reason = r, v_reference_summary = rs, v_search_cycles = sc\<rparr>"
  by (simp add: JuryVote_def decision_of_json_def)


lemma vote_simple_cases:
  "vote_simple env jury claim =
     (case request_vote env jury claim (simple_user_prompt jury claim)
             (if simple_evidence_text jury claim \<noteq> []
              then Some (take 200 (simple_evidence_text jury claim)) else None) 1 of
        Inr vote \<Rightarrow> Inr vote
      | Inl e \<Rightarrow>
          Inr \<lparr>v_jury_name = j_name jury, v_claim_id = c_claim_id claim, v_decision = abstain,
               v_confidence = 0, v_reason = ''Error during evaluation: '' @ str_exn e,
               v_reference_summary = None, v_search_cycles = 1\<rparr>)"
  by (simp add: vote_simple_def Let_def JuryVote_abstain split: sum.splits)



text \<open>
  The handler catches every failure of the \<^verbatim>\<open>try\<close> block, not only a failed request:
  a reply that is no dictionary or whose decision is none of the four literals fails the
  block as well. A reply that is a dictionary without the three entries does not: the
  defaults of the three reads make it a vote of reasonable doubt with confidence
  \<open>1/2\<close>.
\<close>

lemma vote_simple_abstains_on_any_failure:
  "request_vote env jury claim (simple_user_prompt jury claim)
     (if simple_evidence_text jury claim \<noteq> []
      then Some (take 200 (simple_evidence_text jury claim)) else None) 1 = Inl e \<Longrightarrow>
   vote_simple env jury claim =
     Inr \<lparr>v_jury_name = j_name jury, v_claim_id = c_claim_id claim, v_decision = abstain,
          v_confidence = 0, v_reason = ''Error during evaluation: '' @ str_exn e,
          v_reference_summary = None, v_search_cycles = 1\<rparr>"
  by (simp add: vote_simple_cases)

lemma request_vote_fails_on_malformed_reply:
  "j_llm jury req = Inr response \<Longrightarrow>
   (\<forall>kvs. response \<noteq> JDict kvs) \<or>
   (\<exists>kvs d. response = JDict kvs \<and> map_of kvs ''decision'' = Some d \<and> decision_of_json d = None) \<Longrightarrow>
   \<exists>e. request_vote env jury claim req rs sc = Inl e"
  by (cases response)
     (auto simp: request_vote_def json_get_def JuryVote_def split: sum.splits option.splits)

lemma request_vote_defaults:
  "j_llm jury req = Inr (JDict []) \<Longrightarrow>
   request_vote env jury claim req rs sc =
     Inr \<lparr>v_jury_name = j_name jury, v_claim_id = c_claim_id claim,
          v_decision = reasonable_doubt, v_confidence = 1 / 2, v_reason = ''No reason provided'',
          v_reference_summary = rs, v_search_cycles = sc\<rparr>"
  by (simp add: request_vote_def json_get_def py_float_def JuryVote_def decision_of_json_def)




subsection \<open>The trial loop\<close>

text \<open>
  With a limit of at least one, the votes of a claim are collected, a jury trial
  returns and so does the loop over the claims.
\<close>

lemma collect_votes_returns:
  "1 \<le> ct_concurrency_limit court \<Longrightarrow>
   collect_votes env court claim =
     Some (Inr (map (\<lambda>jury. case_sum (\<lambda>e. None) Some (Jury_vote env jury claim))
                  (ct_juries court)))"
  using gather_get_vote [of "map (\<lambda>jury. Jury_vote env jury claim) (ct_juries court)"]
  by (simp add: collect_votes_def run_with_concurrency_limit_def comp_def)

lemma conduct_jury_trial_returns:
  "1 \<le> ct_concurrency_limit court \<Longrightarrow>
   \<exists>outcome events. conduct_jury_trial env court claim = Some (outcome, events)"
  by (simp add: conduct_jury_trial_def collect_votes_returns Let_def split: sum.splits)

lemma hear_loop_returns:
  "1 \<le> ct_concurrency_limit court \<Longrightarrow>
   \<exists>s'. hear_loop env court case_id domain claims s = Some s'"
proof (induction claims arbitrary: s)
  case Nil
  then show ?case by simp
next
  case (Cons claim rest)
  show ?case
  proof (cases "c_source claim = SrcCache")
    case True
    with Cons show ?thesis by (simp split: sum.splits)
  next
    case False
    from conduct_jury_trial_returns [OF Cons.prems] obtain outcome events
      where c: "conduct_jury_trial env court claim = Some (outcome, events)" by blast
    show ?thesis
    proof (cases outcome)
      case (Inl e)
      with False c Cons show ?thesis by simp
    next
      case (Inr result)
      with False c Cons show ?thesis by (cases result) simp_all
    qed
  qed
qed

lemma hear_loop_append:
  "hear_loop env court case_id domain pre s0 = Some s \<Longrightarrow> \<not> hs_mistrial_occurred s \<Longrightarrow>
   hear_loop env court case_id domain (pre @ rest) s0 = hear_loop env court case_id domain rest s"
proof (induction pre arbitrary: s0)
  case Nil
  then show ?case by simp
next
  case (Cons claim pre)
  show ?case
  proof (cases "c_source claim = SrcCache")
    case True
    with Cons show ?thesis by (simp split: sum.splits)
  next
    case False
    with Cons.prems obtain outcome events
      where c: "conduct_jury_trial env court claim = Some (outcome, events)"
      by (cases "conduct_jury_trial env court claim") auto
    show ?thesis
    proof (cases outcome)
      case (Inl e)
      with False c Cons show ?thesis by simp
    next
      case (Inr result)
      with False c Cons show ?thesis by (cases result) auto
    qed
  qed
qed

lemma hear_loop_results_grow:
  "hear_loop env court case_id domain claims s = Some s' \<Longrightarrow>
   \<exists>more. hs_claim_results s' = hs_claim_results s @ more"
proof (induction claims arbitrary: s)
  case Nil
  then show ?case by simp
next
  case (Cons claim rest)
  show ?case
  proof (cases "c_source claim = SrcCache")
    case True
    show ?thesis
    proof (cases "cached_result claim")
      case (Inl e)
      with True Cons.prems Cons.IH [of "s\<lparr>hs_partial_failure := True\<rparr>"] show ?thesis by simp
    next
      case (Inr result)
      with True Cons.prems Cons.IH [of "s\<lparr>hs_claim_results := hs_claim_results s @ [result]\<rparr>"]
      show ?thesis by auto
    qed
  next
    case False
    with Cons.prems obtain outcome events
      where c: "conduct_jury_trial env court claim = Some (outcome, events)"
      by (cases "conduct_jury_trial env court claim") auto
    show ?thesis
    proof (cases outcome)
      case (Inl e)
      with False c Cons.prems
        Cons.IH [of "s\<lparr>hs_partial_failure := True, hs_events := hs_events s @ events\<rparr>"]
      show ?thesis by simp
    next
      case (Inr result)
      show ?thesis
      proof (cases result)
        case None
        with Inr False c Cons.prems show ?thesis by auto
      next
        case (Some claim_result)
        with Inr False c Cons.prems
          Cons.IH [of "s\<lparr>hs_claim_results := hs_claim_results s @ [claim_result],
                  hs_events :=
                    hs_events s @ events @ record_verdict env court claim_result case_id domain\<rparr>"]
        show ?thesis by auto
      qed
    qed
  qed
qed

text \<open>A missed quorum at a claim that the loop reaches ends the loop there.\<close>

lemma hear_loop_mistrial:
  assumes "hear_loop env court case_id domain pre s0 = Some s"
    and "\<not> hs_mistrial_occurred s"
    and "c_source claim \<noteq> SrcCache"
    and "conduct_jury_trial env court claim = Some (Inr None, events)"
  shows "hear_loop env court case_id domain (pre @ claim # rest) s0 =
     Some (s\<lparr>hs_mistrial_occurred := True,
             hs_error_message :=
               Some (''Failed to meet quorum for claim: '' @ take 50 (c_text claim) @ ''...''),
             hs_events := hs_events s @ events\<rparr>)"
  using assms by (simp add: hear_loop_append)

lemma conduct_jury_trial_quorum_missed:
  assumes "collect_votes env court claim = Some (Inr votes)"
    and "int (length (successful_votes votes)) < ct_quorum court"
  shows "conduct_jury_trial env court claim =
     Some (Inr None, map (\<lambda>jury. JuryVoted (j_name jury) (c_claim_id claim)) (ct_juries court))"
  using assms by (simp add: conduct_jury_trial_def)

subsection \<open>The court\<close>

text \<open>
  Claim C1, as amended. \<^verbatim>\<open>Court.hear\<close> returns a report and raises nothing whenever
  the prosecutor's preprocessing returns and the concurrency limit is at least one:
  what fails while a claim is processed is caught inside the loop. An exception raised
  by the prosecutor's preprocessing (its store lookups are not guarded, and neither is
  its call in \<^verbatim>\<open>hear\<close>) is propagated to the caller of \<^verbatim>\<open>hear\<close>.
\<close>

theorem hear_returns_unless_prosecutor_raises:
  "(Prosecutor_process env (ct_prosecutor court) case_text = Inl e \<longrightarrow>
      hear env court case_text domain = Some (Inl e))
   \<and> (1 \<le> ct_concurrency_limit court' \<and>
       Prosecutor_process env' (ct_prosecutor court') case_text' = Inr prosecutor_report \<longrightarrow>
      (\<exists>report events. hear env' court' case_text' domain' = Some (Inr (report, events))))"
proof (intro conjI impI)
  assume "Prosecutor_process env (ct_prosecutor court) case_text = Inl e"
  then show "hear env court case_text domain = Some (Inl e)"
    by (simp add: hear_def)
next
  assume a: "1 \<le> ct_concurrency_limit court' \<and>
       Prosecutor_process env' (ct_prosecutor court') case_text' = Inr prosecutor_report"
  then obtain s where
    "hear_loop env' court' (env_case_id env') domain' (prep_claims prosecutor_report) hear_init =
       Some s"
    using hear_loop_returns by blast
  with a show "\<exists>report events. hear env' court' case_text' domain' = Some (Inr (report, events))"
    by (simp add: hear_def)
qed

lemma ex_process_locked:
  "Prosecutor_process ex_env (ct_prosecutor ex_locked_court) ''AB'' =
     Inl (BackendError ''database is locked'')"
  by code_simp

lemma ex_process_AB:
  "Prosecutor_process ex_env (ct_prosecutor ex_court) ''AB'' =
     Inr \<lparr>prep_case_id = [], prep_original_text = ''AB'',
          prep_claims = [ex_claim_A 0, ex_new_claim ''B'' 1],
          prep_cache_hits = 1, prep_precedents_found = 0\<rparr>"
  by code_simp

lemma ex_limit: "1 \<le> ct_concurrency_limit ex_court"
  by code_simp

theorem hear_returns_unless_prosecutor_raises_witness:
  "hear ex_env ex_locked_court ''AB'' ''general'' = Some (Inl (BackendError ''database is locked''))
   \<and> (\<exists>report events. hear ex_env ex_court ''AB'' ''general'' = Some (Inr (report, events)))"
  using hear_returns_unless_prosecutor_raises [of ex_env ex_locked_court "''AB''"
      "BackendError ''database is locked''" "''general''" ex_court ex_env "''AB''" _ "''general''"]
    ex_process_locked ex_process_AB ex_limit
  by simp

text \<open>
  The claim as stated fails: the store of this court raises on the exact-match lookup,
  and \<^verbatim>\<open>hear\<close> raises the same exception instead of returning a report.
\<close>

theorem hear_propagates_prosecutor_failure:
  "hear ex_env ex_locked_court ''AB'' ''general'' =
     Some (Inl (BackendError ''database is locked''))"
  by code_simp

text \<open>
  Claim C3. For every claim of a case that the court reaches and whose collected votes
  hold fewer substantive votes (a vote was returned and is no abstention) than the
  quorum: the status of the case is \<open>mistrial\<close>, the error message names the claim
  by the first fifty characters of its text, the report holds exactly the results made
  before this claim, so none for it, and nothing after its votes happens: the report
  and the events are the same whatever claims follow, and no jury, judge or store is
  called for them.
\<close>

theorem quorum_failure_is_mistrial:
  assumes "Prosecutor_process env (ct_prosecutor court) case_text = Inr prosecutor_report"
    and "prep_claims prosecutor_report = pre @ claim # rest"
    and "hear_loop env court (env_case_id env) domain pre hear_init = Some s"
    and "\<not> hs_mistrial_occurred s"
    and "c_source claim \<noteq> SrcCache"
    and "collect_votes env court claim = Some (Inr votes)"
    and "int (length (filter (\<lambda>v. case v of None \<Rightarrow> False | Some x \<Rightarrow> v_decision x \<noteq> abstain)
                 votes)) < ct_quorum court"
  shows "hear env court case_text domain =
     Some (Inr (\<lparr>rep_case_id = env_case_id env, rep_case_text = case_text, rep_domain = domain,
                  rep_status = mistrial, rep_claims = hs_claim_results s,
                  rep_error_message =
                    Some (''Failed to meet quorum for claim: '' @ take 50 (c_text claim) @ ''...'')\<rparr>,
                hs_events s @
                map (\<lambda>jury. JuryVoted (j_name jury) (c_claim_id claim)) (ct_juries court)))"
proof -
  have "filter (\<lambda>v. v \<noteq> None \<and> v_decision (the v) \<noteq> abstain) votes =
        filter (\<lambda>v. case v of None \<Rightarrow> False | Some x \<Rightarrow> v_decision x \<noteq> abstain) votes"
    by (rule filter_cong) (auto split: option.splits)
  with assms(7) have "int (length (successful_votes votes)) < ct_quorum court"
    by (simp add: successful_votes_def)
  with assms(6) have "conduct_jury_trial env court claim =
     Some (Inr None, map (\<lambda>jury. JuryVoted (j_name jury) (c_claim_id claim)) (ct_juries court))"
    by (rule conduct_jury_trial_quorum_missed)
  with assms(3,4,5) have "hear_loop env court (env_case_id env) domain (pre @ claim # rest) hear_init =
     Some (s\<lparr>hs_mistrial_occurred := True,
             hs_error_message :=
               Some (''Failed to meet quorum for claim: '' @ take 50 (c_text claim) @ ''...''),
             hs_events := hs_events s @
               map (\<lambda>jury. JuryVoted (j_name jury) (c_claim_id claim)) (ct_juries court)\<rparr>)"
    by (rule hear_loop_mistrial)
  with assms(1,2) show ?thesis
    by (simp add: hear_def report_status_def)
qed

theorem quorum_failure_is_mistrial_witness:
  "collect_votes ex_env ex_strict_court (ex_new_claim ''B'' 1) = Some (Inr (ex_votes 1))
   \<and> int (length (filter (\<lambda>v. case v of None \<Rightarrow> False | Some x \<Rightarrow> v_decision x \<noteq> abstain)
                 (ex_votes 1))) < ct_quorum ex_strict_court
   \<and> hear ex_env ex_strict_court ''ABC'' ''general'' =
       Some (Inr (ex_mistrial_report ''ABC'' [ex_result_A 0],
                  ex_voted [''j1'', ''j2'', ''j3'', ''j4''] 1))"
proof -
  have h1: "Prosecutor_process ex_env (ct_prosecutor ex_strict_court) ''ABC'' =
     Inr \<lparr>prep_case_id = [], prep_original_text = ''ABC'',
          prep_claims = [ex_claim_A 0, ex_new_claim ''B'' 1, ex_new_claim ''C'' 2],
          prep_cache_hits = 1, prep_precedents_found = 0\<rparr>"
    by code_simp
  have h2: "prep_claims \<lparr>prep_case_id = [], prep_original_text = ''ABC'',
          prep_claims = [ex_claim_A 0, ex_new_claim ''B'' 1, ex_new_claim ''C'' 2],
          prep_cache_hits = 1, prep_precedents_found = 0\<rparr> =
       [ex_claim_A 0] @ ex_new_claim ''B'' 1 # [ex_new_claim ''C'' 2]"
    by simp
  have h3: "hear_loop ex_env ex_strict_court (env_case_id ex_env) ''general'' [ex_claim_A 0]
       hear_init = Some ex_state_after_A"
    by code_simp
  have h4: "\<not> hs_mistrial_occurred ex_state_after_A"
    by code_simp
  have h5: "c_source (ex_new_claim ''B'' 1) \<noteq> SrcCache"
    by code_simp
  have h6: "collect_votes ex_env ex_strict_court (ex_new_claim ''B'' 1) = Some (Inr (ex_votes 1))"
    by code_simp
  have h7: "int (length (filter (\<lambda>v. case v of None \<Rightarrow> False | Some x \<Rightarrow> v_decision x \<noteq> abstain)
                 (ex_votes 1))) < ct_quorum ex_strict_court"
    by code_simp
  have e: "\<lparr>rep_case_id = env_case_id ex_env, rep_case_text = ''ABC'', rep_domain = ''general'',
                  rep_status = mistrial, rep_claims = hs_claim_results ex_state_after_A,
                  rep_error_message =
                    Some (''Failed to meet quorum for claim: '' @
                          take 50 (c_text (ex_new_claim ''B'' 1)) @ ''...'')\<rparr> =
           ex_mistrial_report ''ABC'' [ex_result_A 0]"
    by code_simp
  have v: "hs_events ex_state_after_A @
                map (\<lambda>jury. JuryVoted (j_name jury) (c_claim_id (ex_new_claim ''B'' 1)))
                  (ct_juries ex_strict_court) = ex_voted [''j1'', ''j2'', ''j3'', ''j4''] 1"
    by code_simp
  from quorum_failure_is_mistrial [OF h1 h2 h3 h4 h5 h6 h7] e v h6 h7 show ?thesis
    by simp
qed

subsection \<open>Cached claims\<close>

text \<open>
  Every claim the prosecutor makes of a text for which the exact-match lookup of the
  store returns an entry that is valid now is marked as cached, with the verdict of
  that entry.
\<close>

lemma process_loop_marks_cache:
  assumes "process_loop env self texts claims0 hits found = Inr (claims, hits', found')"
    and "\<forall>c \<in> set claims0. \<forall>m.
           cc_search_exact (pr_court_code self) (c_text c) = Inr (Some m) \<and>
           CourtCodeEntry_is_valid (env_now env) m None \<longrightarrow>
           c_source c = SrcCache \<and> c_cached_verdict c = Some (e_verdict m)"
  shows "\<forall>c \<in> set claims. \<forall>m.
           cc_search_exact (pr_court_code self) (c_text c) = Inr (Some m) \<and>
           CourtCodeEntry_is_valid (env_now env) m None \<longrightarrow>
           c_source c = SrcCache \<and> c_cached_verdict c = Some (e_verdict m)"
  using assms
proof (induction texts arbitrary: claims0 hits found)
  case Nil
  then show ?case by auto
next
  case (Cons claim_text rest)
  from Cons.prems(1) obtain exact_match
    where ex: "cc_search_exact (pr_court_code self) claim_text = Inr exact_match"
    by (cases "cc_search_exact (pr_court_code self) claim_text") auto
  show ?case
  proof (cases "\<exists>m. exact_match = Some m \<and> CourtCodeEntry_is_valid (env_now env) m None")
    case True
    then obtain m where m: "exact_match = Some m" "CourtCodeEntry_is_valid (env_now env) m None"
      by blast
    let ?c = "\<lparr>c_claim_id = env_claim_id env (length claims0), c_text = claim_text,
               c_source = SrcCache, c_cache_id = Some (e_entry_id m),
               c_cached_verdict = Some (e_verdict m), c_precedents = []\<rparr>"
    from Cons.prems(1) ex m
    have run: "process_loop env self rest (claims0 @ [?c]) (hits + 1) found =
                 Inr (claims, hits', found')"
      by simp
    from Cons.prems(2) ex m
    have inv: "\<forall>c \<in> set (claims0 @ [?c]). \<forall>m.
           cc_search_exact (pr_court_code self) (c_text c) = Inr (Some m) \<and>
           CourtCodeEntry_is_valid (env_now env) m None \<longrightarrow>
           c_source c = SrcCache \<and> c_cached_verdict c = Some (e_verdict m)"
      by auto
    from Cons.IH [OF run inv] show ?thesis .
  next
    case False
    then have none: "(case exact_match of None \<Rightarrow> None
        | Some m \<Rightarrow> if CourtCodeEntry_is_valid (env_now env) m None then Some m else None) = None"
      by (auto split: option.splits)
    from Cons.prems(1) ex none obtain similar
      where sim: "cc_search_similar (pr_court_code self) claim_text = Inr similar"
      by (cases "cc_search_similar (pr_court_code self) claim_text") auto
    from Cons.prems(1) ex none sim obtain c hits2 found2
      where run: "process_loop env self rest (claims0 @ [c]) hits2 found2 =
                    Inr (claims, hits', found')"
        and ctext: "c_text c = claim_text"
      by (cases "filter (\<lambda>p. Precedent_is_valid (env_now env) p None) similar = []")
         (auto simp: Let_def)
    from Cons.prems(2) ex False ctext
    have inv: "\<forall>c \<in> set (claims0 @ [c]). \<forall>m.
           cc_search_exact (pr_court_code self) (c_text c) = Inr (Some m) \<and>
           CourtCodeEntry_is_valid (env_now env) m None \<longrightarrow>
           c_source c = SrcCache \<and> c_cached_verdict c = Some (e_verdict m)"
      by auto
    from Cons.IH [OF run inv] show ?thesis .
  qed
qed

lemma Prosecutor_process_marks_cache:
  assumes "Prosecutor_process env self case_text = Inr prosecutor_report"
    and "c \<in> set (prep_claims prosecutor_report)"
    and "cc_search_exact (pr_court_code self) (c_text c) = Inr (Some m)"
    and "CourtCodeEntry_is_valid (env_now env) m None"
  shows "c_source c = SrcCache \<and> c_cached_verdict c = Some (e_verdict m)"
proof -
  from assms(1) obtain claims hits found texts
    where "process_loop env self texts [] 0 0 = Inr (claims, hits, found)"
      and "prep_claims prosecutor_report = claims"
    by (auto simp: Prosecutor_process_def Let_def split: sum.splits)
  with process_loop_marks_cache [of env self texts "[]" 0 0 claims hits found] assms(2,3,4)
  show ?thesis by auto
qed

lemma cached_result_of_cache_claim:
  "c_cached_verdict claim = Some verdict \<Longrightarrow>
   \<exists>result. cached_result claim = Inr result \<and> r_claim result = claim \<and>
     r_jury_votes result = [] \<and> r_verdict result = verdict \<and>
     r_objection_count result = 0 \<and> r_objection_ratio result = 0"
  by (simp add: cached_result_def ClaimResult_def)

text \<open>
  Claim C7, as amended. For every claim of a case for whose text the exact-match lookup
  of the precedent store returns an entry that is currently valid: the prosecutor marks
  it as cached and attaches the verdict of the entry; and when the court reaches the
  claim, that is, when no earlier claim of the case has ended the trial in a mistrial,
  it appends a result for it whose verdict is the cached verdict, with an empty vote
  list, objection count 0 and objection ratio 0, and it does so without any event: no
  jury, judge or store is called, the state of the loop changes in the result list
  only. The result is in the report whenever \<^verbatim>\<open>hear\<close> returns one.
\<close>

theorem cached_claim_short_circuits:
  assumes "Prosecutor_process env (ct_prosecutor court) case_text = Inr prosecutor_report"
    and "prep_claims prosecutor_report = pre @ claim # rest"
    and "cc_search_exact (pr_court_code (ct_prosecutor court)) (c_text claim) = Inr (Some m)"
    and "CourtCodeEntry_is_valid (env_now env) m None"
    and "hear_loop env court (env_case_id env) domain pre hear_init = Some s"
    and "\<not> hs_mistrial_occurred s"
  shows "c_source claim = SrcCache \<and> c_cached_verdict claim = Some (e_verdict m) \<and>
    (\<exists>result.
       hear_loop env court (env_case_id env) domain (pre @ [claim]) hear_init =
         Some (s\<lparr>hs_claim_results := hs_claim_results s @ [result]\<rparr>) \<and>
       r_claim result = claim \<and> r_jury_votes result = [] \<and> r_verdict result = e_verdict m \<and>
       r_objection_count result = 0 \<and> r_objection_ratio result = 0 \<and>
       (\<forall>report events. hear env court case_text domain = Some (Inr (report, events)) \<longrightarrow>
          result \<in> set (rep_claims report)))"
proof -
  from assms(2) have mem: "claim \<in> set (prep_claims prosecutor_report)" by simp
  from Prosecutor_process_marks_cache [OF assms(1) mem assms(3,4)]
  have src: "c_source claim = SrcCache" and cv: "c_cached_verdict claim = Some (e_verdict m)"
    by simp_all
  from cached_result_of_cache_claim [OF cv] obtain result
    where res: "cached_result claim = Inr result" "r_claim result = claim"
      "r_jury_votes result = []" "r_verdict result = e_verdict m"
      "r_objection_count result = 0" "r_objection_ratio result = 0"
    by blast
  let ?s' = "s\<lparr>hs_claim_results := hs_claim_results s @ [result]\<rparr>"
  from src res(1) have step: "hear_loop env court (env_case_id env) domain [claim] s = Some ?s'"
    by simp
  with hear_loop_append [OF assms(5,6), of "[claim]"]
  have upto: "hear_loop env court (env_case_id env) domain (pre @ [claim]) hear_init = Some ?s'"
    by simp
  have final: "result \<in> set (rep_claims report)"
    if h: "hear env court case_text domain = Some (Inr (report, events))" for report events
  proof -
    from h assms(1,2) obtain s2
      where s2: "hear_loop env court (env_case_id env) domain (pre @ claim # rest) hear_init = Some s2"
        and rep: "rep_claims report = hs_claim_results s2"
      by (auto simp: hear_def split: option.splits)
    from assms(6) have "\<not> hs_mistrial_occurred ?s'" by simp
    from hear_loop_append [OF upto this, of rest] s2
    have "hear_loop env court (env_case_id env) domain rest ?s' = Some s2" by simp
    from hear_loop_results_grow [OF this] rep show ?thesis by auto
  qed
  from src cv upto res final show ?thesis by blast
qed

theorem cached_claim_short_circuits_witness:
  "cc_search_exact (pr_court_code (ct_prosecutor ex_court)) (c_text (ex_claim_A 0)) =
     Inr (Some ex_entry)
   \<and> CourtCodeEntry_is_valid (env_now ex_env) ex_entry None
   \<and> c_source (ex_claim_A 0) = SrcCache
   \<and> c_cached_verdict (ex_claim_A 0) = Some (e_verdict ex_entry)
   \<and> (\<exists>result.
       hear_loop ex_env ex_court (env_case_id ex_env) ''general'' ([] @ [ex_claim_A 0]) hear_init =
         Some (hear_init\<lparr>hs_claim_results := hs_claim_results hear_init @ [result]\<rparr>) \<and>
       r_claim result = ex_claim_A 0 \<and> r_jury_votes result = [] \<and>
       r_verdict result = e_verdict ex_entry \<and>
       r_objection_count result = 0 \<and> r_objection_ratio result = 0 \<and>
       (\<forall>report events. hear ex_env ex_court ''AB'' ''general'' = Some (Inr (report, events)) \<longrightarrow>
          result \<in> set (rep_claims report)))"
proof -
  have h1: "Prosecutor_process ex_env (ct_prosecutor ex_court) ''AB'' =
     Inr \<lparr>prep_case_id = [], prep_original_text = ''AB'',
          prep_claims = [ex_claim_A 0, ex_new_claim ''B'' 1],
          prep_cache_hits = 1, prep_precedents_found = 0\<rparr>"
    by code_simp
  have h2: "prep_claims \<lparr>prep_case_id = [], prep_original_text = ''AB'',
          prep_claims = [ex_claim_A 0, ex_new_claim ''B'' 1],
          prep_cache_hits = 1, prep_precedents_found = 0\<rparr> =
       [] @ ex_claim_A 0 # [ex_new_claim ''B'' 1]"
    by simp
  have h3: "cc_search_exact (pr_court_code (ct_prosecutor ex_court)) (c_text (ex_claim_A 0)) =
     Inr (Some ex_entry)"
    by code_simp
  have h4: "CourtCodeEntry_is_valid (env_now ex_env) ex_entry None"
    by code_simp
  have h5: "hear_loop ex_env ex_court (env_case_id ex_env) ''general'' [] hear_init = Some hear_init"
    by simp
  have h6: "\<not> hs_mistrial_occurred hear_init"
    by code_simp
  from cached_claim_short_circuits [OF h1 h2 h3 h4 h5 h6] h3 h4 show ?thesis
    by blast
qed

text \<open>
  The claim as stated fails: in the case \<open>BA\<close> before the court with quorum four, the
  text \<open>A\<close> matches the valid entry of the store and the prosecutor marks its claim
  as cached, but the claim \<open>B\<close> before it misses the quorum, the loop is left, and
  the report holds no result for \<open>A\<close>.
\<close>

theorem cached_claim_after_mistrial:
  "cc_search_exact (pr_court_code (ct_prosecutor ex_strict_court)) ''A'' = Inr (Some ex_entry)
   \<and> CourtCodeEntry_is_valid (env_now ex_env) ex_entry None
   \<and> Prosecutor_process ex_env (ct_prosecutor ex_strict_court) ''BA'' =
       Inr \<lparr>prep_case_id = [], prep_original_text = ''BA'',
            prep_claims = [ex_new_claim ''B'' 0, ex_claim_A 1],
            prep_cache_hits = 1, prep_precedents_found = 0\<rparr>
   \<and> hear ex_env ex_strict_court ''BA'' ''general'' =
       Some (Inr (ex_mistrial_report ''BA'' [], ex_voted [''j1'', ''j2'', ''j3'', ''j4''] 0))"
  by code_simp

subsection \<open>Objection statistics\<close>

lemma Judge_verdict_stats:
  assumes "Judge_verdict env self claim votes precedents = Inr result"
  shows "r_jury_votes result = votes"
    and "r_objection_count result = int (length (filter is_objection votes))"
    and "r_objection_ratio result =
           (if votes = [] then 0
            else of_int (int (length (filter is_objection votes))) / of_nat (length votes))"
  using assms
  by (auto simp: Judge_verdict_def ClaimResult_def Let_def split: sum.splits json.splits)

lemma successful_votes_length:
  "length (successful_votes votes) +
   length (filter (\<lambda>v. case v of None \<Rightarrow> False | Some x \<Rightarrow> v_decision x = abstain) votes) =
   length (filter (\<lambda>v. v \<noteq> None) votes)"
  by (induction votes) (auto simp: successful_votes_def split: option.splits)

lemma successful_votes_objections:
  "length (filter is_objection (successful_votes votes)) =
   length (filter (\<lambda>v. case v of None \<Rightarrow> False
                     | Some x \<Rightarrow> v_decision x = suspicious_fact \<or> v_decision x = reasonable_doubt)
             votes)"
  by (induction votes) (auto simp: successful_votes_def is_objection_def split: option.splits)

lemma conduct_jury_trial_result:
  assumes "collect_votes env court claim = Some (Inr collected)"
    and "conduct_jury_trial env court claim = Some (Inr (Some result), events)"
  shows "Judge_verdict env (ct_judge court) claim (successful_votes collected)
           (if c_source claim = SrcPrecedent then Some (c_precedents claim) else None) = Inr result"
  using assms by (auto simp: conduct_jury_trial_def Let_def split: if_splits sum.splits)

text \<open>
  Claim C6. For every result the judge produces, the objection count is the number of
  votes whose decision is \<open>suspicious_fact\<close> or \<open>reasonable_doubt\<close>, and the
  objection ratio is that count divided by the number of votes passed to the judge, or
  0 when there are none. The court drops the abstentions (and the votes that were not
  returned) before it calls the judge: of \<open>n\<close> votes returned for a claim with \<open>k\<close>
  abstentions among them, the judge receives \<open>n - k\<close>, and the ratio of the result is
  the number of objections among the collected votes divided by \<open>n - k\<close>, not by \<open>n\<close>.
\<close>

theorem objection_statistics:
  "(Judge_verdict env self claim votes precedents = Inr result \<longrightarrow>
      r_objection_count result =
        int (length (filter (\<lambda>v. v_decision v = suspicious_fact \<or> v_decision v = reasonable_doubt)
                       votes)) \<and>
      r_objection_ratio result =
        (if votes = [] then 0 else of_int (r_objection_count result) / of_nat (length votes)))
   \<and> (collect_votes env' court claim' = Some (Inr collected) \<and>
       conduct_jury_trial env' court claim' = Some (Inr (Some result'), events) \<longrightarrow>
      (let n = length (filter (\<lambda>v. v \<noteq> None) collected);
           k = length (filter (\<lambda>v. case v of None \<Rightarrow> False | Some x \<Rightarrow> v_decision x = abstain)
                         collected)
       in k \<le> n \<and> length (r_jury_votes result') = n - k \<and>
          r_objection_count result' =
            int (length (filter (\<lambda>v. case v of None \<Rightarrow> False
                                   | Some x \<Rightarrow> v_decision x = suspicious_fact \<or>
                                              v_decision x = reasonable_doubt)
                           collected)) \<and>
          r_objection_ratio result' =
            (if n - k = 0 then 0 else of_int (r_objection_count result') / of_nat (n - k))))"
proof (intro conjI impI)
  assume a: "Judge_verdict env self claim votes precedents = Inr result"
  have "filter is_objection votes =
        filter (\<lambda>v. v_decision v = suspicious_fact \<or> v_decision v = reasonable_doubt) votes"
    by (rule filter_cong) (auto simp: is_objection_def)
  with Judge_verdict_stats(2) [OF a]
  show "r_objection_count result =
        int (length (filter (\<lambda>v. v_decision v = suspicious_fact \<or> v_decision v = reasonable_doubt)
                       votes))"
    by simp
  from Judge_verdict_stats(2,3) [OF a]
  show "r_objection_ratio result =
        (if votes = [] then 0 else of_int (r_objection_count result) / of_nat (length votes))"
    by simp
next
  assume a: "collect_votes env' court claim' = Some (Inr collected) \<and>
       conduct_jury_trial env' court claim' = Some (Inr (Some result'), events)"
  then have jv: "Judge_verdict env' (ct_judge court) claim' (successful_votes collected)
           (if c_source claim' = SrcPrecedent then Some (c_precedents claim') else None) =
           Inr result'"
    using conduct_jury_trial_result by blast
  define n where "n = length (filter (\<lambda>v. v \<noteq> None) collected)"
  define k where "k = length (filter (\<lambda>v. case v of None \<Rightarrow> False
                                        | Some x \<Rightarrow> v_decision x = abstain) collected)"
  from successful_votes_length [of collected]
  have len: "length (successful_votes collected) = n - k" and le: "k \<le> n"
    by (simp_all add: n_def k_def)
  from len have empty: "(successful_votes collected = []) = (n - k = 0)"
    by (metis length_0_conv)
  from Judge_verdict_stats [OF jv] len
  have "length (r_jury_votes result') = n - k"
    and "r_objection_count result' =
            int (length (filter (\<lambda>v. case v of None \<Rightarrow> False
                                   | Some x \<Rightarrow> v_decision x = suspicious_fact \<or>
                                              v_decision x = reasonable_doubt)
                           collected))"
    and "r_objection_ratio result' =
            (if n - k = 0 then 0 else of_int (r_objection_count result') / of_nat (n - k))"
    by (simp_all add: successful_votes_objections empty)
  with le show "let n = length (filter (\<lambda>v. v \<noteq> None) collected);
           k = length (filter (\<lambda>v. case v of None \<Rightarrow> False | Some x \<Rightarrow> v_decision x = abstain)
                         collected)
       in k \<le> n \<and> length (r_jury_votes result') = n - k \<and>
          r_objection_count result' =
            int (length (filter (\<lambda>v. case v of None \<Rightarrow> False
                                   | Some x \<Rightarrow> v_decision x = suspicious_fact \<or>
                                              v_decision x = reasonable_doubt)
                           collected)) \<and>
          r_objection_ratio result' =
            (if n - k = 0 then 0 else of_int (r_objection_count result') / of_nat (n - k))"
    by (simp add: Let_def n_def k_def)
qed

theorem objection_statistics_witness:
  "Judge_verdict ex_env ex_judge (ex_new_claim ''B'' 1) (r_jury_votes (ex_result_B 1)) None =
     Inr (ex_result_B 1)
   \<and> r_objection_count (ex_result_B 1) = 1
   \<and> r_objection_ratio (ex_result_B 1) = 1 / 3
   \<and> collect_votes ex_env ex_court (ex_new_claim ''B'' 1) = Some (Inr (ex_votes 1))
   \<and> conduct_jury_trial ex_env ex_court (ex_new_claim ''B'' 1) =
       Some (Inr (Some (ex_result_B 1)),
             ex_voted [''j1'', ''j2'', ''j3'', ''j4''] 1 @ [JudgeCalled (ex_claim_id 1)])
   \<and> length (filter (\<lambda>v. v \<noteq> None) (ex_votes 1)) = 4
   \<and> length (filter (\<lambda>v. case v of None \<Rightarrow> False | Some x \<Rightarrow> v_decision x = abstain)
               (ex_votes 1)) = 1
   \<and> length (r_jury_votes (ex_result_B 1)) = 4 - 1
   \<and> r_objection_ratio (ex_result_B 1) =
       of_int (r_objection_count (ex_result_B 1)) / of_nat (4 - 1)"
proof -
  have h1: "Judge_verdict ex_env ex_judge (ex_new_claim ''B'' 1) (r_jury_votes (ex_result_B 1)) None =
     Inr (ex_result_B 1)"
    by code_simp
  have h2: "collect_votes ex_env ex_court (ex_new_claim ''B'' 1) = Some (Inr (ex_votes 1))"
    by code_simp
  have h3: "conduct_jury_trial ex_env ex_court (ex_new_claim ''B'' 1) =
       Some (Inr (Some (ex_result_B 1)),
             ex_voted [''j1'', ''j2'', ''j3'', ''j4''] 1 @ [JudgeCalled (ex_claim_id 1)])"
    by code_simp
  have n: "length (filter (\<lambda>v. v \<noteq> None) (ex_votes 1)) = 4"
    by code_simp
  have k: "length (filter (\<lambda>v. case v of None \<Rightarrow> False | Some x \<Rightarrow> v_decision x = abstain)
               (ex_votes 1)) = 1"
    by code_simp
  have c: "r_objection_count (ex_result_B 1) = 1" "r_objection_ratio (ex_result_B 1) = 1 / 3"
    by (simp_all add: ex_result_B_def)
  from objection_statistics [of ex_env ex_judge "ex_new_claim ''B'' 1"
      "r_jury_votes (ex_result_B 1)" None "ex_result_B 1" ex_env ex_court "ex_new_claim ''B'' 1"
      "ex_votes 1" "ex_result_B 1"
      "ex_voted [''j1'', ''j2'', ''j3'', ''j4''] 1 @ [JudgeCalled (ex_claim_id 1)]"]
    h1 h2 h3 n k c
  show ?thesis by (simp add: Let_def)
qed

subsection \<open>Construction\<close>

lemma unknown_operator_never_matches:
  "operator \<notin> set [Some ''eq'', Some ''lt'', Some ''le'', Some ''gt'', Some ''ge''] \<Longrightarrow>
   rule_matches ratio operator val = Inr False"
  by (simp add: rule_matches_def)

text \<open>
  Claim C8, as amended. Fewer juries than the quorum make the construction of the court
  fail with \<^verbatim>\<open>ValueError\<close>; with enough juries the court is constructed whatever the
  verdict rules are. The verdict rules are not inspected at construction: the judge is
  constructed with any non-empty rule set as given, also one with an operator that is
  none of \<open>eq\<close>, \<open>lt\<close>, \<open>le\<close>, \<open>gt\<close>, \<open>ge\<close>. At trial time such a rule raises
  nothing and never matches: the scan of the rules passes over it.
\<close>

theorem construction_checks_quorum_only:
  "(int (length juries) < quorum \<longrightarrow>
      (\<exists>msg. Court_init prosecutor juries judge verdict_rules quorum concurrency_limit =
                Inl (ValueError msg)))
   \<and> (\<not> int (length juries') < quorum' \<longrightarrow>
      Court_init prosecutor' juries' judge' verdict_rules' quorum' concurrency_limit' =
        Inr \<lparr>ct_prosecutor = prosecutor', ct_juries = juries', ct_judge = judge',
             ct_verdict_rules = verdict_rules', ct_quorum = quorum',
             ct_concurrency_limit = concurrency_limit'\<rparr>)
   \<and> Judge_init (Inr llm) (Some (rule # rules)) judge_prompt =
        Inr \<lparr>jd_llm = llm, jd_judge_prompt = judge_prompt, jd_verdict_rules = rule # rules\<rparr>
   \<and> (operator \<notin> set [Some ''eq'', Some ''lt'', Some ''le'', Some ''gt'', Some ''ge''] \<longrightarrow>
      calculate_verdict_loop ratio ((verdict, RuleDict operator val) # rest) default_verdict =
        calculate_verdict_loop ratio rest default_verdict)"
  by (simp add: Court_init_def Judge_init_def unknown_operator_never_matches)

theorem construction_checks_quorum_only_witness:
  "int (length ex_juries) < 5
   \<and> (\<exists>msg. Court_init ex_prosecutor ex_juries ex_judge None 5 5 = Inl (ValueError msg))
   \<and> Court_init ex_prosecutor ex_juries ex_judge None 3 5 = Inr ex_court
   \<and> Judge_init (Inr (ex_llm ex_timeout)) (Some ex_unknown_operator_rules) None =
       Inr (ex_judge\<lparr>jd_verdict_rules := ex_unknown_operator_rules\<rparr>)
   \<and> calculate_verdict (1 / 5) ex_unknown_operator_rules = Inr ''refuted''"
proof -
  have a: "int (length ex_juries) < 5" "\<not> int (length ex_juries) < 3"
    by (simp_all add: ex_juries_def)
  have b: "Some ''approx'' \<notin> set [Some ''eq'', Some ''lt'', Some ''le'', Some ''gt'', Some ''ge'']"
    by simp
  have c: "\<lparr>ct_prosecutor = ex_prosecutor, ct_juries = ex_juries, ct_judge = ex_judge,
             ct_verdict_rules = None, ct_quorum = 3, ct_concurrency_limit = 5\<rparr> = ex_court"
    by (simp add: ex_court_def)
  have d: "\<lparr>jd_llm = ex_llm ex_timeout, jd_judge_prompt = None,
            jd_verdict_rules = (''likely'', RuleDict (Some ''approx'') (Some (1 / 2))) #
              [(''refuted'', RuleStr ''default'')]\<rparr> =
           ex_judge\<lparr>jd_verdict_rules := ex_unknown_operator_rules\<rparr>"
    by (simp add: ex_judge_def ex_unknown_operator_rules_def)
  have e: "calculate_verdict_loop (1 / 5) [(''refuted'', RuleStr ''default'')] None = Inr ''refuted''"
    by simp
  from construction_checks_quorum_only [of ex_juries 5 ex_prosecutor ex_judge None 5
      ex_juries 3 ex_prosecutor ex_judge None 5 "ex_llm ex_timeout"
      "(''likely'', RuleDict (Some ''approx'') (Some (1 / 2)))" "[(''refuted'', RuleStr ''default'')]"
      None "Some ''approx''" "1 / 5" "''likely''" "Some (1 / 2)" "[(''refuted'', RuleStr ''default'')]"
      None] a b c d e
  show ?thesis
    by (simp add: calculate_verdict_def ex_unknown_operator_rules_def)
qed

text \<open>
  The claim as stated fails: with the operator \<open>approx\<close> in its rules, the judge and
  a court with this judge are constructed, and at trial time the ratio \<open>1/5\<close> gets
  the default verdict because the rule is passed over.
\<close>

theorem construction_accepts_unknown_operator:
  "Judge_init (Inr (ex_llm ex_timeout)) (Some ex_unknown_operator_rules) None =
     Inr (ex_judge\<lparr>jd_verdict_rules := ex_unknown_operator_rules\<rparr>)
   \<and> Court_init ex_prosecutor ex_juries (ex_judge\<lparr>jd_verdict_rules := ex_unknown_operator_rules\<rparr>)
       (Some ex_unknown_operator_rules) 3 5 =
     Inr (ex_court\<lparr>ct_judge := ex_judge\<lparr>jd_verdict_rules := ex_unknown_operator_rules\<rparr>,
                   ct_verdict_rules := Some ex_unknown_operator_rules\<rparr>)
   \<and> calculate_verdict (1 / 5) ex_unknown_operator_rules = Inr ''refuted''"
  by (simp add: Judge_init_def Court_init_def ex_judge_def ex_court_def ex_juries_def
      calculate_verdict_def ex_unknown_operator_rules_def rule_matches_def)

subsection \<open>The status of the report\<close>

text \<open>
  The two flags after the loop: a mistrial occurred exactly when some claim missed the
  quorum, and without one, a partial failure occurred exactly when some claim raised.
\<close>

lemma hear_loop_flags:
  "hear_loop env court case_id domain claims s = Some s' \<Longrightarrow>
   hs_mistrial_occurred s' = (hs_mistrial_occurred s \<or> list_ex (quorum_missed env court) claims) \<and>
   (\<not> list_ex (quorum_missed env court) claims \<longrightarrow>
      hs_partial_failure s' = (hs_partial_failure s \<or> list_ex (claim_errored env court) claims))"
proof (induction claims arbitrary: s)
  case Nil
  then show ?case by auto
next
  case (Cons claim rest)
  show ?case
  proof (cases "c_source claim = SrcCache")
    case True
    show ?thesis
    proof (cases "cached_result claim")
      case (Inl e)
      with True Cons.prems Cons.IH [of "s\<lparr>hs_partial_failure := True\<rparr>"] show ?thesis
        by (simp add: quorum_missed_def claim_errored_def)
    next
      case (Inr result)
      with True Cons.prems Cons.IH [of "s\<lparr>hs_claim_results := hs_claim_results s @ [result]\<rparr>"]
      show ?thesis by (simp add: quorum_missed_def claim_errored_def)
    qed
  next
    case False
    with Cons.prems obtain outcome events
      where c: "conduct_jury_trial env court claim = Some (outcome, events)"
      by (cases "conduct_jury_trial env court claim") auto
    show ?thesis
    proof (cases outcome)
      case (Inl e)
      with False c Cons.prems
        Cons.IH [of "s\<lparr>hs_partial_failure := True, hs_events := hs_events s @ events\<rparr>"]
      show ?thesis by (simp add: quorum_missed_def claim_errored_def)
    next
      case (Inr result)
      show ?thesis
      proof (cases result)
        case None
        with Inr False c Cons.prems show ?thesis
          by (auto simp: quorum_missed_def claim_errored_def)
      next
        case (Some claim_result)
        with Inr False c Cons.prems
          Cons.IH [of "s\<lparr>hs_claim_results := hs_claim_results s @ [claim_result],
                  hs_events :=
                    hs_events s @ events @ record_verdict env court claim_result case_id domain\<rparr>"]
        show ?thesis by (simp add: quorum_missed_def claim_errored_def)
      qed
    qed
  qed
qed

text \<open>
  Claim C10. The status of the report that \<^verbatim>\<open>Court.hear\<close> returns is a function of the
  two failure flags of its loop, the mistrial first: \<open>mistrial\<close> when a claim missed
  the quorum, otherwise \<open>partial\<close> when a claim raised, otherwise \<open>completed\<close>; and
  the claims of the report are the results the loop collected. When a claim that the
  loop reaches misses the quorum, the status is \<open>mistrial\<close> whatever the partial
  failure flag was before (it is kept as it was), and the results are exactly those
  collected before the halt.
\<close>

theorem report_status_from_flags:
  "(hear env court case_text domain = Some (Inr (report, events)) \<longrightarrow>
      (\<exists>prosecutor_report s.
         Prosecutor_process env (ct_prosecutor court) case_text = Inr prosecutor_report \<and>
         hear_loop env court (env_case_id env) domain (prep_claims prosecutor_report) hear_init =
           Some s \<and>
         rep_status report =
           (if hs_mistrial_occurred s then mistrial
            else if hs_partial_failure s then partial else completed) \<and>
         rep_status report =
           (if list_ex (quorum_missed env court) (prep_claims prosecutor_report) then mistrial
            else if list_ex (claim_errored env court) (prep_claims prosecutor_report) then partial
            else completed) \<and>
         rep_claims report = hs_claim_results s))
   \<and> (hear_loop env' court' case_id domain' pre s0 = Some s1 \<and> \<not> hs_mistrial_occurred s1 \<and>
       c_source claim \<noteq> SrcCache \<and>
       conduct_jury_trial env' court' claim = Some (Inr None, events') \<longrightarrow>
      (\<exists>s2. hear_loop env' court' case_id domain' (pre @ claim # rest) s0 = Some s2 \<and>
            hs_mistrial_occurred s2 \<and> hs_partial_failure s2 = hs_partial_failure s1 \<and>
            hs_claim_results s2 = hs_claim_results s1 \<and>
            report_status (hs_mistrial_occurred s2) (hs_partial_failure s2) = mistrial))"
proof (intro conjI impI)
  assume "hear env court case_text domain = Some (Inr (report, events))"
  then obtain prosecutor_report s
    where p: "Prosecutor_process env (ct_prosecutor court) case_text = Inr prosecutor_report"
      and l: "hear_loop env court (env_case_id env) domain (prep_claims prosecutor_report)
                hear_init = Some s"
      and st: "rep_status report = report_status (hs_mistrial_occurred s) (hs_partial_failure s)"
      and cl: "rep_claims report = hs_claim_results s"
    by (auto simp: hear_def split: sum.splits option.splits)
  from hear_loop_flags [OF l]
  have fl: "hs_mistrial_occurred s = list_ex (quorum_missed env court) (prep_claims prosecutor_report)"
    "\<not> list_ex (quorum_missed env court) (prep_claims prosecutor_report) \<Longrightarrow>
       hs_partial_failure s = list_ex (claim_errored env court) (prep_claims prosecutor_report)"
    by (simp_all add: hear_init_def)
  from p l st cl fl show "\<exists>prosecutor_report s.
         Prosecutor_process env (ct_prosecutor court) case_text = Inr prosecutor_report \<and>
         hear_loop env court (env_case_id env) domain (prep_claims prosecutor_report) hear_init =
           Some s \<and>
         rep_status report =
           (if hs_mistrial_occurred s then mistrial
            else if hs_partial_failure s then partial else completed) \<and>
         rep_status report =
           (if list_ex (quorum_missed env court) (prep_claims prosecutor_report) then mistrial
            else if list_ex (claim_errored env court) (prep_claims prosecutor_report) then partial
            else completed) \<and>
         rep_claims report = hs_claim_results s"
    by (auto simp: report_status_def)
next
  assume a: "hear_loop env' court' case_id domain' pre s0 = Some s1 \<and> \<not> hs_mistrial_occurred s1 \<and>
       c_source claim \<noteq> SrcCache \<and>
       conduct_jury_trial env' court' claim = Some (Inr None, events')"
  then have "hear_loop env' court' case_id domain' (pre @ claim # rest) s0 =
     Some (s1\<lparr>hs_mistrial_occurred := True,
             hs_error_message :=
               Some (''Failed to meet quorum for claim: '' @ take 50 (c_text claim) @ ''...''),
             hs_events := hs_events s1 @ events'\<rparr>)"
    using hear_loop_mistrial by blast
  then show "\<exists>s2. hear_loop env' court' case_id domain' (pre @ claim # rest) s0 = Some s2 \<and>
            hs_mistrial_occurred s2 \<and> hs_partial_failure s2 = hs_partial_failure s1 \<and>
            hs_claim_results s2 = hs_claim_results s1 \<and>
            report_status (hs_mistrial_occurred s2) (hs_partial_failure s2) = mistrial"
    by (simp add: report_status_def)
qed

theorem report_status_from_flags_witness:
  "hear ex_env ex_moody_court ''ACB'' ''general'' =
     Some (Inr (ex_mistrial_report ''ACB'' [ex_result_A 0],
                hs_events ex_state_after_AC @ ex_voted [''m1'', ''m2'', ''m3''] 2))
   \<and> hs_partial_failure ex_state_after_AC
   \<and> (\<exists>prosecutor_report s.
         Prosecutor_process ex_env (ct_prosecutor ex_moody_court) ''ACB'' = Inr prosecutor_report \<and>
         hear_loop ex_env ex_moody_court (env_case_id ex_env) ''general''
           (prep_claims prosecutor_report) hear_init = Some s \<and>
         rep_status (ex_mistrial_report ''ACB'' [ex_result_A 0]) =
           (if hs_mistrial_occurred s then mistrial
            else if hs_partial_failure s then partial else completed) \<and>
         rep_status (ex_mistrial_report ''ACB'' [ex_result_A 0]) =
           (if list_ex (quorum_missed ex_env ex_moody_court) (prep_claims prosecutor_report)
            then mistrial
            else if list_ex (claim_errored ex_env ex_moody_court) (prep_claims prosecutor_report)
            then partial else completed) \<and>
         rep_claims (ex_mistrial_report ''ACB'' [ex_result_A 0]) = hs_claim_results s)
   \<and> (\<exists>s2. hear_loop ex_env ex_moody_court ''case-1'' ''general''
              ([ex_claim_A 0, ex_new_claim ''C'' 1] @ ex_new_claim ''B'' 2 # []) hear_init = Some s2 \<and>
            hs_mistrial_occurred s2 \<and> hs_partial_failure s2 = hs_partial_failure ex_state_after_AC \<and>
            hs_claim_results s2 = hs_claim_results ex_state_after_AC \<and>
            report_status (hs_mistrial_occurred s2) (hs_partial_failure s2) = mistrial)"
proof -
  have h1: "hear ex_env ex_moody_court ''ACB'' ''general'' =
     Some (Inr (ex_mistrial_report ''ACB'' [ex_result_A 0],
                hs_events ex_state_after_AC @ ex_voted [''m1'', ''m2'', ''m3''] 2))"
    by code_simp
  have h2: "hear_loop ex_env ex_moody_court ''case-1'' ''general''
              [ex_claim_A 0, ex_new_claim ''C'' 1] hear_init = Some ex_state_after_AC"
    by code_simp
  have h3: "\<not> hs_mistrial_occurred ex_state_after_AC" "hs_partial_failure ex_state_after_AC"
    by code_simp+
  have h4: "c_source (ex_new_claim ''B'' 2) \<noteq> SrcCache"
    by code_simp
  have h5: "conduct_jury_trial ex_env ex_moody_court (ex_new_claim ''B'' 2) =
     Some (Inr None, ex_voted [''m1'', ''m2'', ''m3''] 2)"
    by code_simp
  from report_status_from_flags [of ex_env ex_moody_court "''ACB''" "''general''"
      "ex_mistrial_report ''ACB'' [ex_result_A 0]"
      "hs_events ex_state_after_AC @ ex_voted [''m1'', ''m2'', ''m3''] 2"
      ex_env ex_moody_court "''case-1''" "''general''" "[ex_claim_A 0, ex_new_claim ''C'' 1]"
      hear_init ex_state_after_AC "ex_new_claim ''B'' 2" "ex_voted [''m1'', ''m2'', ''m3''] 2" "[]"]
    h1 h2 h3 h4 h5
  show ?thesis by blast
qed

end
